theory Spec2Isabelle
  imports Main "HOL-Library.Word"
begin

section \<open>Solidity base types\<close>

text \<open>
  The contracts are compiled with \<^verbatim>\<open>pragma solidity ^0.8.24\<close>: every \<^verbatim>\<open>uint256\<close>
  is a 256-bit word and \<^verbatim>\<open>+\<close> and \<^verbatim>\<open>++\<close> revert with a panic instead of wrapping.
  A \<^verbatim>\<open>mapping\<close> is a total function whose unset entries read as the zero value of
  the value type. A call either returns the new state (\<open>Inr\<close>) or reverts (\<open>Inl\<close>),
  in which case storage is left as it was. Events do not touch storage and are left out.
\<close>

type_synonym address = "160 word"
type_synonym uint256 = "256 word"
type_synonym bytes32 = "256 word"
type_synonym bytes = "8 word list"

datatype error =
    Revert string                       \<comment> \<open>a failed \<^verbatim>\<open>require(cond, message)\<close>\<close>
  | Panic                               \<comment> \<open>checked arithmetic overflow\<close>
  | AccessControlUnauthorizedAccount    \<comment> \<open>a failed \<^verbatim>\<open>onlyRole\<close> modifier\<close>
  | ERC721NonexistentToken              \<comment> \<open>\<^verbatim>\<open>ownerOf\<close> of a token that was never minted\<close>
  | ERC721InvalidReceiver               \<comment> \<open>minting to the zero address\<close>
  | ERC721InvalidSender                 \<comment> \<open>minting a token that already has an owner\<close>

definition checked_add :: "uint256 \<Rightarrow> uint256 \<Rightarrow> error + uint256" where
  "checked_add a b = (if unat a + unat b < 2 ^ 256 then Inr (a + b) else Inl Panic)"

text \<open>
  The role identifiers are distinct \<^verbatim>\<open>bytes32\<close> constants (hashes of their names); each
  contract keeps its own role table, read by the \<^verbatim>\<open>onlyRole\<close> modifier.
\<close>

datatype role =
    DEFAULT_ADMIN_ROLE | ORACLE_ROLE | AUDITOR_ROLE | ORACLE_UPDATER_ROLE | VALIDATOR_ROLE
  | MONITOR_ROLE | AI_ORACLE_ROLE | ENFORCER_ROLE | WHITELIST_MANAGER_ROLE
  | COMPLIANCE_OFFICER_ROLE

definition seconds_1_days :: uint256 where
  "seconds_1_days = 86400"

definition seconds_24_hours :: uint256 where
  "seconds_24_hours = 86400"

definition wei_1000_ether :: uint256 where
  "wei_1000_ether = 1000 * 10 ^ 18"


section \<open>RiskRegistry\<close>

datatype RiskLevel = NONE | LOW | MEDIUM | HIGH | CRITICAL

record RiskAssessment =
  ra_level :: RiskLevel
  ra_score :: uint256
  ra_timestamp :: uint256
  ra_reason :: string
  ra_assessor :: address
  ra_active :: bool

record RiskRegistry =
  riskAssessments :: "address \<Rightarrow> RiskAssessment"
  addressesByRisk :: "RiskLevel \<Rightarrow> address list"
  totalAssessments :: uint256
  rr_roles :: "role \<Rightarrow> address \<Rightarrow> bool"

definition RiskAssessment_zero :: RiskAssessment where
  "RiskAssessment_zero =
     \<lparr>ra_level = RiskLevel.NONE, ra_score = 0, ra_timestamp = 0, ra_reason = [],
      ra_assessor = 0, ra_active = False\<rparr>"

text \<open>The registry as its constructor leaves it, deployed by \<open>deployer\<close>.\<close>

definition RiskRegistry_constructor :: "address \<Rightarrow> RiskRegistry" where
  "RiskRegistry_constructor deployer =
     \<lparr>riskAssessments = (\<lambda>_. RiskAssessment_zero),
      addressesByRisk = (\<lambda>_. []),
      totalAssessments = 0,
      rr_roles = (\<lambda>r a. a = deployer \<and> (r = DEFAULT_ADMIN_ROLE \<or> r = ORACLE_ROLE \<or> r = AUDITOR_ROLE))\<rparr>"

definition scoreToLevel :: "uint256 \<Rightarrow> RiskLevel" where
  "scoreToLevel score =
     (if score \<ge> 90 then RiskLevel.CRITICAL
      else if score \<ge> 70 then RiskLevel.HIGH
      else if score \<ge> 40 then RiskLevel.MEDIUM
      else if score \<ge> 10 then RiskLevel.LOW
      else RiskLevel.NONE)"

definition assessRisk ::
  "address \<Rightarrow> uint256 \<Rightarrow> address \<Rightarrow> RiskLevel \<Rightarrow> uint256 \<Rightarrow> string \<Rightarrow> RiskRegistry
     \<Rightarrow> error + RiskRegistry" where
  "assessRisk msg_sender block_timestamp target level score reason s =
     (if \<not> rr_roles s ORACLE_ROLE msg_sender then Inl AccessControlUnauthorizedAccount
      else if \<not> target \<noteq> 0 then Inl (Revert ''Invalid target address'')
      else if \<not> score \<le> 100 then Inl (Revert ''Score must be 0-100'')
      else if \<not> length reason > 0 then Inl (Revert ''Reason required'')
      else
        let assessment = riskAssessments s target;
            oldLevel = ra_level assessment;
            assessment' = assessment
              \<lparr>ra_level := level, ra_score := score, ra_timestamp := block_timestamp,
               ra_reason := reason, ra_assessor := msg_sender, ra_active := True\<rparr>;
            s' = s
              \<lparr>riskAssessments := (riskAssessments s)(target := assessment'),
               addressesByRisk := (addressesByRisk s)(level := addressesByRisk s level @ [target])\<rparr>
        in if oldLevel = RiskLevel.NONE
           then (case checked_add (totalAssessments s') 1 of
                   Inl e \<Rightarrow> Inl e
                 | Inr n \<Rightarrow> Inr (s'\<lparr>totalAssessments := n\<rparr>))
           else Inr s')"

definition updateRiskScore ::
  "address \<Rightarrow> uint256 \<Rightarrow> address \<Rightarrow> uint256 \<Rightarrow> RiskRegistry \<Rightarrow> error + RiskRegistry" where
  "updateRiskScore msg_sender block_timestamp target newScore s =
     (if \<not> rr_roles s ORACLE_ROLE msg_sender then Inl AccessControlUnauthorizedAccount
      else if \<not> newScore \<le> 100 then Inl (Revert ''Score must be 0-100'')
      else
        let assessment = riskAssessments s target
        in if \<not> ra_active assessment then Inl (Revert ''No active assessment'')
           else
             let oldLevel = ra_level assessment;
                 assessment' = assessment\<lparr>ra_score := newScore, ra_timestamp := block_timestamp\<rparr>;
                 newLevel = scoreToLevel newScore
             in if newLevel \<noteq> oldLevel
                then Inr (s\<lparr>riskAssessments :=
                             (riskAssessments s)(target := assessment'\<lparr>ra_level := newLevel\<rparr>),
                           addressesByRisk :=
                             (addressesByRisk s)(newLevel := addressesByRisk s newLevel @ [target])\<rparr>)
                else Inr (s\<lparr>riskAssessments := (riskAssessments s)(target := assessment')\<rparr>))"

definition clearRisk :: "address \<Rightarrow> address \<Rightarrow> RiskRegistry \<Rightarrow> error + RiskRegistry" where
  "clearRisk msg_sender target s =
     (if \<not> rr_roles s AUDITOR_ROLE msg_sender then Inl AccessControlUnauthorizedAccount
      else
        let assessment = riskAssessments s target
        in if \<not> ra_active assessment then Inl (Revert ''No active assessment'')
           else Inr (s\<lparr>riskAssessments := (riskAssessments s)(target := assessment\<lparr>ra_active := False\<rparr>)\<rparr>))"

definition isHighRisk :: "RiskRegistry \<Rightarrow> address \<Rightarrow> bool" where
  "isHighRisk s target =
     (let assessment = riskAssessments s target
      in ra_active assessment \<and>
         (ra_level assessment = RiskLevel.HIGH \<or> ra_level assessment = RiskLevel.CRITICAL))"

definition getRiskLevel :: "RiskRegistry \<Rightarrow> address \<Rightarrow> RiskLevel" where
  "getRiskLevel s target =
     (if ra_active (riskAssessments s target) then ra_level (riskAssessments s target)
      else RiskLevel.NONE)"

definition getRiskScore :: "RiskRegistry \<Rightarrow> address \<Rightarrow> uint256" where
  "getRiskScore s target =
     (if ra_active (riskAssessments s target) then ra_score (riskAssessments s target) else 0)"


section \<open>ComplianceOracle\<close>

text \<open>
  \<^verbatim>\<open>keccak256\<close> is a primitive of the execution environment; the functions that hash
  take it as their first argument. \<^verbatim>\<open>abi.encodePacked\<close> lays static values out
  big-endian at their own width, and a string as its bytes.
\<close>

definition big_endian :: "nat \<Rightarrow> 'a::len word \<Rightarrow> bytes" where
  "big_endian n w = map (\<lambda>i. ucast (drop_bit (8 * i) w)) (rev [0..<n])"

definition encodePacked_address :: "address \<Rightarrow> bytes" where
  "encodePacked_address a = big_endian 20 a"

definition encodePacked_uint256 :: "uint256 \<Rightarrow> bytes" where
  "encodePacked_uint256 n = big_endian 32 n"

definition encodePacked_string :: "string \<Rightarrow> bytes" where
  "encodePacked_string str = map of_char str"

record DataSource =
  ds_name :: string
  ds_endpoint :: string
  ds_lastUpdate :: uint256
  ds_active :: bool

record ComplianceCheck =
  cc_isSanctioned :: bool
  cc_isPEP :: bool
  cc_jurisdiction :: string
  cc_timestamp :: uint256
  cc_dataSourceId :: bytes32

record ComplianceOracle =
  sanctionedAddresses :: "address \<Rightarrow> bool"
  sanctionedJurisdictions :: "string \<Rightarrow> bool"
  dataSources :: "bytes32 \<Rightarrow> DataSource"
  dataSourceIds :: "bytes32 list"
  complianceChecks :: "address \<Rightarrow> ComplianceCheck"
  co_roles :: "role \<Rightarrow> address \<Rightarrow> bool"

definition ComplianceOracle_constructor :: "address \<Rightarrow> ComplianceOracle" where
  "ComplianceOracle_constructor deployer =
     \<lparr>sanctionedAddresses = (\<lambda>_. False),
      sanctionedJurisdictions = (\<lambda>_. False),
      dataSources = (\<lambda>_. \<lparr>ds_name = [], ds_endpoint = [], ds_lastUpdate = 0, ds_active = False\<rparr>),
      dataSourceIds = [],
      complianceChecks = (\<lambda>_. \<lparr>cc_isSanctioned = False, cc_isPEP = False, cc_jurisdiction = [],
                                 cc_timestamp = 0, cc_dataSourceId = 0\<rparr>),
      co_roles = (\<lambda>r a. a = deployer \<and>
                    (r = DEFAULT_ADMIN_ROLE \<or> r = ORACLE_UPDATER_ROLE \<or> r = VALIDATOR_ROLE))\<rparr>"

definition registerDataSource ::
  "(bytes \<Rightarrow> bytes32) \<Rightarrow> address \<Rightarrow> uint256 \<Rightarrow> string \<Rightarrow> string \<Rightarrow> ComplianceOracle
     \<Rightarrow> error + bytes32 \<times> ComplianceOracle" where
  "registerDataSource keccak256 msg_sender block_timestamp name endpoint s =
     (if \<not> co_roles s DEFAULT_ADMIN_ROLE msg_sender then Inl AccessControlUnauthorizedAccount
      else
        let sourceId = keccak256 (encodePacked_string name @ encodePacked_uint256 block_timestamp)
        in Inr (sourceId,
                s\<lparr>dataSources := (dataSources s)(sourceId :=
                     \<lparr>ds_name = name, ds_endpoint = endpoint, ds_lastUpdate = block_timestamp,
                      ds_active = True\<rparr>),
                  dataSourceIds := dataSourceIds s @ [sourceId]\<rparr>))"

text \<open>
  The oracle calls into the registry it was deployed with; \<open>this\<close> is the oracle's own
  address, which the registry sees as \<^verbatim>\<open>msg.sender\<close>. A revert of the inner call reverts
  the whole transaction, the sanction flag included.
\<close>

definition sanctionAddress ::
  "address \<Rightarrow> address \<Rightarrow> uint256 \<Rightarrow> address \<Rightarrow> bytes32 \<Rightarrow> string
     \<Rightarrow> ComplianceOracle \<times> RiskRegistry \<Rightarrow> error + ComplianceOracle \<times> RiskRegistry" where
  "sanctionAddress this msg_sender block_timestamp target dataSourceId reason w =
     (case w of (s, riskRegistry) \<Rightarrow>
        if \<not> co_roles s ORACLE_UPDATER_ROLE msg_sender then Inl AccessControlUnauthorizedAccount
        else if \<not> target \<noteq> 0 then Inl (Revert ''Invalid address'')
        else if \<not> ds_active (dataSources s dataSourceId) then Inl (Revert ''Invalid data source'')
        else
          let s' = s\<lparr>sanctionedAddresses := (sanctionedAddresses s)(target := True)\<rparr>
          in case assessRisk this block_timestamp target RiskLevel.CRITICAL 100 reason riskRegistry of
               Inl e \<Rightarrow> Inl e
             | Inr riskRegistry' \<Rightarrow> Inr (s', riskRegistry'))"

definition clearSanction :: "address \<Rightarrow> address \<Rightarrow> ComplianceOracle \<Rightarrow> error + ComplianceOracle" where
  "clearSanction msg_sender target s =
     (if \<not> co_roles s VALIDATOR_ROLE msg_sender then Inl AccessControlUnauthorizedAccount
      else if \<not> sanctionedAddresses s target then Inl (Revert ''Address not sanctioned'')
      else Inr (s\<lparr>sanctionedAddresses := (sanctionedAddresses s)(target := False)\<rparr>))"

definition sanctionJurisdiction :: "address \<Rightarrow> string \<Rightarrow> ComplianceOracle \<Rightarrow> error + ComplianceOracle" where
  "sanctionJurisdiction msg_sender jurisdiction s =
     (if \<not> co_roles s ORACLE_UPDATER_ROLE msg_sender then Inl AccessControlUnauthorizedAccount
      else Inr (s\<lparr>sanctionedJurisdictions := (sanctionedJurisdictions s)(jurisdiction := True)\<rparr>))"

definition isSanctioned :: "ComplianceOracle \<Rightarrow> address \<Rightarrow> bool" where
  "isSanctioned s target = sanctionedAddresses s target"


section \<open>TransactionMonitor\<close>

datatype PatternType =
  NORMAL | STRUCTURING | RAPID_MOVEMENT | MIXING | HIGH_VOLUME | SANCTION_INTERACTION

datatype AlertSeverity = INFO | LOW | MEDIUM | HIGH | CRITICAL

record TransactionAnalysis =
  ta_txHash :: bytes32
  ta_from :: address
  ta_to :: address
  ta_amount :: uint256
  ta_pattern :: PatternType
  ta_severity :: AlertSeverity
  ta_anomalyScore :: uint256
  ta_timestamp :: uint256
  ta_flagged :: bool
  ta_notes :: string

record Alert =
  al_id :: uint256
  al_target :: address
  al_pattern :: PatternType
  al_severity :: AlertSeverity
  al_description :: string
  al_timestamp :: uint256
  al_resolved :: bool
  al_resolver :: address

record TransactionMonitor =
  transactionAnalyses :: "bytes32 \<Rightarrow> TransactionAnalysis"
  addressTransactions :: "address \<Rightarrow> bytes32 list"
  alerts :: "uint256 \<Rightarrow> Alert"
  alertCounter :: uint256
  flaggedTransactionCount :: uint256
  highRiskThreshold :: uint256
  criticalRiskThreshold :: uint256
  tm_roles :: "role \<Rightarrow> address \<Rightarrow> bool"

text \<open>
  The two remaining public thresholds of the contract, \<^verbatim>\<open>rapidMovementWindow\<close> and
  \<^verbatim>\<open>highVolumeThreshold\<close>, are never read or written by any function and are left out.
\<close>

definition TransactionMonitor_constructor :: "address \<Rightarrow> TransactionMonitor" where
  "TransactionMonitor_constructor deployer =
     \<lparr>transactionAnalyses = (\<lambda>_.
        \<lparr>ta_txHash = 0, ta_from = 0, ta_to = 0, ta_amount = 0, ta_pattern = NORMAL,
         ta_severity = AlertSeverity.INFO, ta_anomalyScore = 0, ta_timestamp = 0,
         ta_flagged = False, ta_notes = []\<rparr>),
      addressTransactions = (\<lambda>_. []),
      alerts = (\<lambda>_.
        \<lparr>al_id = 0, al_target = 0, al_pattern = NORMAL, al_severity = AlertSeverity.INFO,
         al_description = [], al_timestamp = 0, al_resolved = False, al_resolver = 0\<rparr>),
      alertCounter = 0,
      flaggedTransactionCount = 0,
      highRiskThreshold = 70,
      criticalRiskThreshold = 90,
      tm_roles = (\<lambda>r a. a = deployer \<and>
                    (r = DEFAULT_ADMIN_ROLE \<or> r = MONITOR_ROLE \<or> r = AI_ORACLE_ROLE))\<rparr>"

definition calculateSeverity :: "TransactionMonitor \<Rightarrow> uint256 \<Rightarrow> PatternType \<Rightarrow> AlertSeverity" where
  "calculateSeverity s score pattern =
     (if pattern = SANCTION_INTERACTION \<or> score \<ge> criticalRiskThreshold s then AlertSeverity.CRITICAL
      else if pattern = MIXING \<or> score \<ge> highRiskThreshold s then AlertSeverity.HIGH
      else if pattern = RAPID_MOVEMENT \<or> score \<ge> 50 then AlertSeverity.MEDIUM
      else if pattern \<noteq> NORMAL \<or> score \<ge> 25 then AlertSeverity.LOW
      else AlertSeverity.INFO)"

definition scoreToRiskLevel :: "uint256 \<Rightarrow> RiskLevel" where
  "scoreToRiskLevel score =
     (if score \<ge> 90 then RiskLevel.CRITICAL
      else if score \<ge> 70 then RiskLevel.HIGH
      else if score \<ge> 40 then RiskLevel.MEDIUM
      else if score \<ge> 10 then RiskLevel.LOW
      else RiskLevel.NONE)"

definition createAlert ::
  "uint256 \<Rightarrow> address \<Rightarrow> PatternType \<Rightarrow> AlertSeverity \<Rightarrow> string \<Rightarrow> TransactionMonitor
     \<Rightarrow> error + TransactionMonitor" where
  "createAlert block_timestamp target pattern severity description s =
     (case checked_add (alertCounter s) 1 of
        Inl e \<Rightarrow> Inl e
      | Inr n \<Rightarrow>
          Inr (s\<lparr>alertCounter := n,
                 alerts := (alerts s)(n :=
                   \<lparr>al_id = n, al_target = target, al_pattern = pattern, al_severity = severity,
                    al_description = description, al_timestamp = block_timestamp,
                    al_resolved = False, al_resolver = 0\<rparr>)\<rparr>))"

definition updateRiskScores ::
  "address \<Rightarrow> uint256 \<Rightarrow> address \<Rightarrow> address \<Rightarrow> uint256 \<Rightarrow> ComplianceOracle \<Rightarrow> RiskRegistry
     \<Rightarrow> error + RiskRegistry" where
  "updateRiskScores this block_timestamp from to anomalyScore complianceOracle riskRegistry =
     (let currentFromRisk = getRiskScore riskRegistry from
      in case checked_add currentFromRisk anomalyScore of
           Inl e \<Rightarrow> Inl e
         | Inr added \<Rightarrow>
             let newFromRisk = added div 2
             in case assessRisk this block_timestamp from (scoreToRiskLevel newFromRisk) newFromRisk
                       ''Automated risk update from transaction monitoring'' riskRegistry of
                  Inl e \<Rightarrow> Inl e
                | Inr riskRegistry' \<Rightarrow>
                    if isSanctioned complianceOracle to
                    then assessRisk this block_timestamp from RiskLevel.CRITICAL 100
                           ''Interaction with sanctioned address'' riskRegistry'
                    else Inr riskRegistry')"

definition analyzeTransaction ::
  "address \<Rightarrow> address \<Rightarrow> uint256 \<Rightarrow> bytes32 \<Rightarrow> address \<Rightarrow> address \<Rightarrow> uint256 \<Rightarrow> PatternType
     \<Rightarrow> uint256 \<Rightarrow> string \<Rightarrow> ComplianceOracle \<Rightarrow> TransactionMonitor \<times> RiskRegistry
     \<Rightarrow> error + TransactionMonitor \<times> RiskRegistry" where
  "analyzeTransaction this msg_sender block_timestamp txHash from to amount pattern anomalyScore
       notes complianceOracle w =
     (case w of (s, riskRegistry) \<Rightarrow>
        if \<not> tm_roles s AI_ORACLE_ROLE msg_sender then Inl AccessControlUnauthorizedAccount
        else if \<not> anomalyScore \<le> 100 then Inl (Revert ''Invalid anomaly score'')
        else
          let severity = calculateSeverity s anomalyScore pattern;
              flagged = (anomalyScore \<ge> highRiskThreshold s \<or> pattern \<noteq> NORMAL);
              analysis =
                \<lparr>ta_txHash = txHash, ta_from = from, ta_to = to, ta_amount = amount,
                 ta_pattern = pattern, ta_severity = severity, ta_anomalyScore = anomalyScore,
                 ta_timestamp = block_timestamp, ta_flagged = flagged, ta_notes = notes\<rparr>;
              s1 = s\<lparr>transactionAnalyses := (transactionAnalyses s)(txHash := analysis)\<rparr>;
              s2 = s1\<lparr>addressTransactions :=
                        (addressTransactions s1)(from := addressTransactions s1 from @ [txHash])\<rparr>;
              s3 = s2\<lparr>addressTransactions :=
                        (addressTransactions s2)(to := addressTransactions s2 to @ [txHash])\<rparr>
          in if flagged
             then (case checked_add (flaggedTransactionCount s3) 1 of
                     Inl e \<Rightarrow> Inl e
                   | Inr n \<Rightarrow>
                       (case createAlert block_timestamp from pattern severity notes
                               (s3\<lparr>flaggedTransactionCount := n\<rparr>) of
                          Inl e \<Rightarrow> Inl e
                        | Inr s4 \<Rightarrow>
                            (case updateRiskScores this block_timestamp from to anomalyScore
                                    complianceOracle riskRegistry of
                               Inl e \<Rightarrow> Inl e
                             | Inr riskRegistry' \<Rightarrow> Inr (s4, riskRegistry'))))
             else Inr (s3, riskRegistry))"

definition resolveAlert :: "address \<Rightarrow> uint256 \<Rightarrow> TransactionMonitor \<Rightarrow> error + TransactionMonitor" where
  "resolveAlert msg_sender alertId s =
     (if \<not> tm_roles s MONITOR_ROLE msg_sender then Inl AccessControlUnauthorizedAccount
      else
        let alert = alerts s alertId
        in if \<not> \<not> al_resolved alert then Inl (Revert ''Alert already resolved'')
           else Inr (s\<lparr>alerts := (alerts s)(alertId :=
                         alert\<lparr>al_resolved := True, al_resolver := msg_sender\<rparr>)\<rparr>))"

definition updateThresholds ::
  "address \<Rightarrow> uint256 \<Rightarrow> uint256 \<Rightarrow> TransactionMonitor \<Rightarrow> error + TransactionMonitor" where
  "updateThresholds msg_sender newHighRisk newCritical s =
     (if \<not> tm_roles s DEFAULT_ADMIN_ROLE msg_sender then Inl AccessControlUnauthorizedAccount
      else if \<not> newHighRisk < newCritical then Inl (Revert ''Invalid thresholds'')
      else if \<not> newCritical \<le> 100 then Inl (Revert ''Threshold too high'')
      else Inr (s\<lparr>highRiskThreshold := newHighRisk, criticalRiskThreshold := newCritical\<rparr>))"


section \<open>ComplianceEnforcement\<close>

datatype EnforcementAction = NONE | WARN | DELAY | LIMIT | BLOCK | FREEZE

record AccountStatus =
  as_frozen :: bool
  as_whitelisted :: bool
  as_defaultAction :: EnforcementAction
  as_dailyLimit :: uint256
  as_dailySpent :: uint256
  as_lastResetTimestamp :: uint256
  as_freezeTimestamp :: uint256
  as_freezeInitiator :: address
  as_freezeReason :: string

record DelayedTransaction =
  dt_txId :: bytes32
  dt_from :: address
  dt_to :: address
  dt_amount :: uint256
  dt_data :: bytes
  dt_delayUntil :: uint256
  dt_executed :: bool
  dt_approved :: bool
  dt_reviewer :: address

record ComplianceEnforcement =
  accountStatuses :: "address \<Rightarrow> AccountStatus"
  delayedTransactions :: "bytes32 \<Rightarrow> DelayedTransaction"
  accountDelayedTxs :: "address \<Rightarrow> bytes32 list"
  defaultDailyLimit :: uint256
  delayPeriod :: uint256
  enforcementEnabled :: bool
  ce_roles :: "role \<Rightarrow> address \<Rightarrow> bool"

definition AccountStatus_zero :: AccountStatus where
  "AccountStatus_zero =
     \<lparr>as_frozen = False, as_whitelisted = False, as_defaultAction = EnforcementAction.NONE,
      as_dailyLimit = 0, as_dailySpent = 0, as_lastResetTimestamp = 0, as_freezeTimestamp = 0,
      as_freezeInitiator = 0, as_freezeReason = []\<rparr>"

definition DelayedTransaction_zero :: DelayedTransaction where
  "DelayedTransaction_zero =
     \<lparr>dt_txId = 0, dt_from = 0, dt_to = 0, dt_amount = 0, dt_data = [], dt_delayUntil = 0,
      dt_executed = False, dt_approved = False, dt_reviewer = 0\<rparr>"

definition ComplianceEnforcement_constructor :: "address \<Rightarrow> ComplianceEnforcement" where
  "ComplianceEnforcement_constructor deployer =
     \<lparr>accountStatuses = (\<lambda>_. AccountStatus_zero),
      delayedTransactions = (\<lambda>_. DelayedTransaction_zero),
      accountDelayedTxs = (\<lambda>_. []),
      defaultDailyLimit = wei_1000_ether,
      delayPeriod = seconds_24_hours,
      enforcementEnabled = True,
      ce_roles = (\<lambda>r a. a = deployer \<and>
                    (r = DEFAULT_ADMIN_ROLE \<or> r = ENFORCER_ROLE \<or> r = WHITELIST_MANAGER_ROLE))\<rparr>"

definition checkDailyLimit ::
  "uint256 \<Rightarrow> address \<Rightarrow> uint256 \<Rightarrow> ComplianceEnforcement \<Rightarrow> error + bool" where
  "checkDailyLimit block_timestamp account amount s =
     (let status = accountStatuses s account;
          limit = (if as_dailyLimit status > 0 then as_dailyLimit status else defaultDailyLimit s)
      in case checked_add (as_lastResetTimestamp status) seconds_1_days of
           Inl e \<Rightarrow> Inl e
         | Inr resetAt \<Rightarrow>
             if block_timestamp \<ge> resetAt then Inr (amount > limit)
             else (case checked_add (as_dailySpent status) amount of
                     Inl e \<Rightarrow> Inl e
                   | Inr spent \<Rightarrow> Inr (spent > limit)))"

text \<open>
  \<^verbatim>\<open>checkTransaction\<close> is a view: it reads the enforcement contract's own storage, the
  oracle's sanction list and the registry's risk levels, and returns a verdict or reverts.
\<close>

definition checkTransaction ::
  "uint256 \<Rightarrow> address \<Rightarrow> address \<Rightarrow> uint256 \<Rightarrow> ComplianceEnforcement \<Rightarrow> ComplianceOracle
     \<Rightarrow> RiskRegistry \<Rightarrow> error + bool \<times> EnforcementAction \<times> string" where
  "checkTransaction block_timestamp from to amount s complianceOracle riskRegistry =
     (if \<not> enforcementEnabled s then Inr (True, EnforcementAction.NONE, [])
      else
        let fromStatus = accountStatuses s from;
            toStatus = accountStatuses s to
        in if as_whitelisted fromStatus then Inr (True, EnforcementAction.NONE, ''Whitelisted'')
           else if as_frozen fromStatus then Inr (False, FREEZE, ''Account frozen'')
           else if as_frozen toStatus then Inr (False, BLOCK, ''Recipient frozen'')
           else if isSanctioned complianceOracle from then Inr (False, FREEZE, ''Sender sanctioned'')
           else if isSanctioned complianceOracle to then Inr (False, BLOCK, ''Recipient sanctioned'')
           else
             let fromRisk = getRiskLevel riskRegistry from;
                 toRisk = getRiskLevel riskRegistry to
             in if fromRisk = RiskLevel.CRITICAL then Inr (False, FREEZE, ''Critical risk - sender'')
                else if toRisk = RiskLevel.CRITICAL
                  then Inr (False, BLOCK, ''Critical risk - recipient'')
                else if fromRisk = RiskLevel.HIGH
                  then Inr (False, DELAY, ''High risk - requires review'')
                else (case checkDailyLimit block_timestamp from amount s of
                        Inl e \<Rightarrow> Inl e
                      | Inr exceeded \<Rightarrow>
                          if exceeded then Inr (False, LIMIT, ''Daily limit exceeded'')
                          else Inr (True, EnforcementAction.NONE, [])))"

definition freezeAccount ::
  "address \<Rightarrow> uint256 \<Rightarrow> address \<Rightarrow> string \<Rightarrow> ComplianceEnforcement
     \<Rightarrow> error + ComplianceEnforcement" where
  "freezeAccount msg_sender block_timestamp account reason s =
     (if \<not> ce_roles s ENFORCER_ROLE msg_sender then Inl AccessControlUnauthorizedAccount
      else if \<not> \<not> as_frozen (accountStatuses s account) then Inl (Revert ''Already frozen'')
      else Inr (s\<lparr>accountStatuses := (accountStatuses s)(account :=
                    (accountStatuses s account)
                      \<lparr>as_frozen := True, as_freezeTimestamp := block_timestamp,
                       as_freezeInitiator := msg_sender, as_freezeReason := reason\<rparr>)\<rparr>))"

definition unfreezeAccount ::
  "address \<Rightarrow> address \<Rightarrow> ComplianceEnforcement \<Rightarrow> error + ComplianceEnforcement" where
  "unfreezeAccount msg_sender account s =
     (if \<not> ce_roles s ENFORCER_ROLE msg_sender then Inl AccessControlUnauthorizedAccount
      else if \<not> as_frozen (accountStatuses s account) then Inl (Revert ''Not frozen'')
      else Inr (s\<lparr>accountStatuses := (accountStatuses s)(account :=
                    (accountStatuses s account)\<lparr>as_frozen := False\<rparr>)\<rparr>))"

definition whitelistAccount ::
  "address \<Rightarrow> address \<Rightarrow> ComplianceEnforcement \<Rightarrow> error + ComplianceEnforcement" where
  "whitelistAccount msg_sender account s =
     (if \<not> ce_roles s WHITELIST_MANAGER_ROLE msg_sender then Inl AccessControlUnauthorizedAccount
      else Inr (s\<lparr>accountStatuses := (accountStatuses s)(account :=
                    (accountStatuses s account)\<lparr>as_whitelisted := True\<rparr>)\<rparr>))"

definition removeFromWhitelist ::
  "address \<Rightarrow> address \<Rightarrow> ComplianceEnforcement \<Rightarrow> error + ComplianceEnforcement" where
  "removeFromWhitelist msg_sender account s =
     (if \<not> ce_roles s WHITELIST_MANAGER_ROLE msg_sender then Inl AccessControlUnauthorizedAccount
      else Inr (s\<lparr>accountStatuses := (accountStatuses s)(account :=
                    (accountStatuses s account)\<lparr>as_whitelisted := False\<rparr>)\<rparr>))"

definition createDelayedTransaction ::
  "(bytes \<Rightarrow> bytes32) \<Rightarrow> address \<Rightarrow> uint256 \<Rightarrow> address \<Rightarrow> address \<Rightarrow> uint256 \<Rightarrow> bytes
     \<Rightarrow> ComplianceEnforcement \<Rightarrow> error + bytes32 \<times> ComplianceEnforcement" where
  "createDelayedTransaction keccak256 msg_sender block_timestamp from to amount data s =
     (if \<not> ce_roles s ENFORCER_ROLE msg_sender then Inl AccessControlUnauthorizedAccount
      else
        let txId = keccak256 (encodePacked_address from @ encodePacked_address to @
                              encodePacked_uint256 amount @ encodePacked_uint256 block_timestamp)
        in case checked_add block_timestamp (delayPeriod s) of
             Inl e \<Rightarrow> Inl e
           | Inr delayUntil \<Rightarrow>
               Inr (txId,
                    s\<lparr>delayedTransactions := (delayedTransactions s)(txId :=
                         \<lparr>dt_txId = txId, dt_from = from, dt_to = to, dt_amount = amount,
                          dt_data = data, dt_delayUntil = delayUntil, dt_executed = False,
                          dt_approved = False, dt_reviewer = 0\<rparr>),
                      accountDelayedTxs :=
                        (accountDelayedTxs s)(from := accountDelayedTxs s from @ [txId])\<rparr>))"

definition approveDelayedTransaction ::
  "address \<Rightarrow> bytes32 \<Rightarrow> ComplianceEnforcement \<Rightarrow> error + ComplianceEnforcement" where
  "approveDelayedTransaction msg_sender txId s =
     (if \<not> ce_roles s ENFORCER_ROLE msg_sender then Inl AccessControlUnauthorizedAccount
      else
        let dtx = delayedTransactions s txId
        in if \<not> \<not> dt_executed dtx then Inl (Revert ''Already executed'')
           else if \<not> \<not> dt_approved dtx then Inl (Revert ''Already approved'')
           else Inr (s\<lparr>delayedTransactions := (delayedTransactions s)(txId :=
                         dtx\<lparr>dt_approved := True, dt_reviewer := msg_sender\<rparr>)\<rparr>))"

text \<open>
  \<^verbatim>\<open>executeDelayedTransaction\<close> has no role check; its \<^verbatim>\<open>nonReentrant\<close> guard has no
  effect here, as the body makes no external call.
\<close>

definition executeDelayedTransaction ::
  "uint256 \<Rightarrow> bytes32 \<Rightarrow> ComplianceEnforcement \<Rightarrow> error + ComplianceEnforcement" where
  "executeDelayedTransaction block_timestamp txId s =
     (let dtx = delayedTransactions s txId
      in if \<not> dt_approved dtx then Inl (Revert ''Not approved'')
         else if \<not> \<not> dt_executed dtx then Inl (Revert ''Already executed'')
         else if \<not> block_timestamp \<ge> dt_delayUntil dtx then Inl (Revert ''Still delayed'')
         else Inr (s\<lparr>delayedTransactions := (delayedTransactions s)(txId :=
                       dtx\<lparr>dt_executed := True\<rparr>)\<rparr>))"

definition setDailyLimit ::
  "address \<Rightarrow> address \<Rightarrow> uint256 \<Rightarrow> ComplianceEnforcement \<Rightarrow> error + ComplianceEnforcement" where
  "setDailyLimit msg_sender account limit s =
     (if \<not> ce_roles s ENFORCER_ROLE msg_sender then Inl AccessControlUnauthorizedAccount
      else Inr (s\<lparr>accountStatuses := (accountStatuses s)(account :=
                    (accountStatuses s account)\<lparr>as_dailyLimit := limit\<rparr>)\<rparr>))"

definition setEnforcementEnabled ::
  "address \<Rightarrow> bool \<Rightarrow> ComplianceEnforcement \<Rightarrow> error + ComplianceEnforcement" where
  "setEnforcementEnabled msg_sender enabled s =
     (if \<not> ce_roles s DEFAULT_ADMIN_ROLE msg_sender then Inl AccessControlUnauthorizedAccount
      else Inr (s\<lparr>enforcementEnabled := enabled\<rparr>))"

definition recordSpending ::
  "address \<Rightarrow> uint256 \<Rightarrow> address \<Rightarrow> uint256 \<Rightarrow> ComplianceEnforcement
     \<Rightarrow> error + ComplianceEnforcement" where
  "recordSpending msg_sender block_timestamp account amount s =
     (if \<not> ce_roles s ENFORCER_ROLE msg_sender then Inl AccessControlUnauthorizedAccount
      else
        let status = accountStatuses s account
        in case checked_add (as_lastResetTimestamp status) seconds_1_days of
             Inl e \<Rightarrow> Inl e
           | Inr resetAt \<Rightarrow>
               if block_timestamp \<ge> resetAt
               then Inr (s\<lparr>accountStatuses := (accountStatuses s)(account :=
                             status\<lparr>as_dailySpent := amount,
                                    as_lastResetTimestamp := block_timestamp\<rparr>)\<rparr>)
               else (case checked_add (as_dailySpent status) amount of
                       Inl e \<Rightarrow> Inl e
                     | Inr spent \<Rightarrow>
                         Inr (s\<lparr>accountStatuses := (accountStatuses s)(account :=
                                  status\<lparr>as_dailySpent := spent\<rparr>)\<rparr>)))"


section \<open>RegulatoryNFT\<close>

datatype ReportType =
    SUSPICIOUS_ACTIVITY | COMPLIANCE_AUDIT | RISK_ASSESSMENT | TRANSACTION_REVIEW
  | KYC_VERIFICATION | SANCTION_SCREENING

datatype ReportStatus = DRAFT | SUBMITTED | UNDER_REVIEW | APPROVED | REJECTED | ARCHIVED

record ComplianceReport =
  rp_tokenId :: uint256
  rp_reportType :: ReportType
  rp_status :: ReportStatus
  rp_subject :: address
  rp_issuer :: address
  rp_timestamp :: uint256
  rp_reviewTimestamp :: uint256
  rp_reviewer :: address
  rp_ipfsHash :: string
  rp_dataHash :: bytes32
  rp_isSealed :: bool

text \<open>
  The contract inherits its token ledger from OpenZeppelin's ERC-721, which is not part of
  the repository. Of that ledger the report functions use the owner table:
  \<^verbatim>\<open>_mint\<close> gives a token without an owner to a non-zero receiver, \<^verbatim>\<open>ownerOf\<close>
  reverts for a token whose owner is the zero address, and \<^verbatim>\<open>_safeMint\<close> is
  \<^verbatim>\<open>_mint\<close> followed by the acceptance check: a receiver that is a contract has its
  \<^verbatim>\<open>onERC721Received\<close> called, and the mint reverts unless that call returns the
  selector. The store has no re-entrancy guard, so the receiver's code may call the store
  again before \<^verbatim>\<open>_safeMint\<close> returns. The token URI that \<^verbatim>\<open>_setTokenURI\<close> stores
  lives in the inherited storage, outside the \<^verbatim>\<open>ComplianceReport\<close> struct, and is left
  out. The inherited entry points (transfers, approvals, role grants) write neither
  \<^verbatim>\<open>reports\<close> nor the counter.
\<close>

record RegulatoryNFT =
  reports :: "uint256 \<Rightarrow> ComplianceReport"
  subjectReports :: "address \<Rightarrow> uint256 list"
  issuerReports :: "address \<Rightarrow> uint256 list"
  tokenIdCounter :: uint256
  owners :: "uint256 \<Rightarrow> address"
  nft_roles :: "role \<Rightarrow> address \<Rightarrow> bool"

definition ComplianceReport_zero :: ComplianceReport where
  "ComplianceReport_zero =
     \<lparr>rp_tokenId = 0, rp_reportType = SUSPICIOUS_ACTIVITY, rp_status = DRAFT, rp_subject = 0,
      rp_issuer = 0, rp_timestamp = 0, rp_reviewTimestamp = 0, rp_reviewer = 0,
      rp_ipfsHash = [], rp_dataHash = 0, rp_isSealed = False\<rparr>"

text \<open>
  The store right after deployment. Role administration is OpenZeppelin's; the role table
  is a parameter, so that any assignment of officers and auditors is covered.
\<close>

definition RegulatoryNFT_deployed :: "(role \<Rightarrow> address \<Rightarrow> bool) \<Rightarrow> RegulatoryNFT" where
  "RegulatoryNFT_deployed roles =
     \<lparr>reports = (\<lambda>_. ComplianceReport_zero),
      subjectReports = (\<lambda>_. []),
      issuerReports = (\<lambda>_. []),
      tokenIdCounter = 0,
      owners = (\<lambda>_. 0),
      nft_roles = roles\<rparr>"

text \<open>The store as the constructor leaves it, deployed by \<open>d\<close>.\<close>

definition RegulatoryNFT_constructor :: "address \<Rightarrow> RegulatoryNFT" where
  "RegulatoryNFT_constructor d =
     RegulatoryNFT_deployed
       (\<lambda>r a. a = d \<and> (r = DEFAULT_ADMIN_ROLE \<or> r = AUDITOR_ROLE \<or> r = COMPLIANCE_OFFICER_ROLE))"

definition ownerOf :: "RegulatoryNFT \<Rightarrow> uint256 \<Rightarrow> error + address" where
  "ownerOf s tokenId = (if owners s tokenId = 0 then Inl ERC721NonexistentToken else Inr (owners s tokenId))"

definition mint :: "address \<Rightarrow> uint256 \<Rightarrow> RegulatoryNFT \<Rightarrow> error + RegulatoryNFT" where
  "mint to tokenId s =
     (if to = 0 then Inl ERC721InvalidReceiver
      else if owners s tokenId \<noteq> 0 then Inl ERC721InvalidSender
      else Inr (s\<lparr>owners := (owners s)(tokenId := to)\<rparr>))"

definition submitReport :: "address \<Rightarrow> uint256 \<Rightarrow> RegulatoryNFT \<Rightarrow> error + RegulatoryNFT" where
  "submitReport msg_sender tokenId s =
     (let report = reports s tokenId
      in case ownerOf s tokenId of
           Inl e \<Rightarrow> Inl e
         | Inr owner \<Rightarrow>
             if \<not> owner = msg_sender then Inl (Revert ''Not report owner'')
             else if \<not> rp_status report = DRAFT then Inl (Revert ''Report already submitted'')
             else if \<not> \<not> rp_isSealed report then Inl (Revert ''Report is sealed'')
             else Inr (s\<lparr>reports := (reports s)(tokenId := report\<lparr>rp_status := SUBMITTED\<rparr>)\<rparr>))"

definition reviewReport ::
  "address \<Rightarrow> uint256 \<Rightarrow> uint256 \<Rightarrow> bool \<Rightarrow> RegulatoryNFT \<Rightarrow> error + RegulatoryNFT" where
  "reviewReport msg_sender block_timestamp tokenId approved s =
     (if \<not> nft_roles s AUDITOR_ROLE msg_sender then Inl AccessControlUnauthorizedAccount
      else
        let report = reports s tokenId
        in if \<not> (rp_status report = SUBMITTED \<or> rp_status report = UNDER_REVIEW)
             then Inl (Revert ''Report not ready for review'')
           else if \<not> \<not> rp_isSealed report then Inl (Revert ''Report is sealed'')
           else Inr (s\<lparr>reports := (reports s)(tokenId :=
                         report\<lparr>rp_status := (if approved then APPROVED else REJECTED),
                                rp_reviewer := msg_sender,
                                rp_reviewTimestamp := block_timestamp\<rparr>)\<rparr>))"

definition sealReport :: "address \<Rightarrow> uint256 \<Rightarrow> RegulatoryNFT \<Rightarrow> error + RegulatoryNFT" where
  "sealReport msg_sender tokenId s =
     (if \<not> nft_roles s AUDITOR_ROLE msg_sender then Inl AccessControlUnauthorizedAccount
      else
        let report = reports s tokenId
        in if \<not> rp_status report = APPROVED then Inl (Revert ''Report must be approved'')
           else if \<not> \<not> rp_isSealed report then Inl (Revert ''Report already sealed'')
           else Inr (s\<lparr>reports := (reports s)(tokenId := report\<lparr>rp_isSealed := True\<rparr>)\<rparr>))"

definition updateReportData ::
  "address \<Rightarrow> uint256 \<Rightarrow> string \<Rightarrow> bytes32 \<Rightarrow> RegulatoryNFT \<Rightarrow> error + RegulatoryNFT" where
  "updateReportData msg_sender tokenId newIpfsHash newDataHash s =
     (let report = reports s tokenId
      in case ownerOf s tokenId of
           Inl e \<Rightarrow> Inl e
         | Inr owner \<Rightarrow>
             if \<not> owner = msg_sender then Inl (Revert ''Not report owner'')
             else if \<not> \<not> rp_isSealed report then Inl (Revert ''Report is sealed'')
             else if \<not> length newIpfsHash > 0 then Inl (Revert ''IPFS hash required'')
             else Inr (s\<lparr>reports := (reports s)(tokenId :=
                           report\<lparr>rp_ipfsHash := newIpfsHash, rp_dataHash := newDataHash\<rparr>)\<rparr>))"

text \<open>
  The mutating entry points of the store as one call type, and what the code at the
  address that receives a minted token does when it is asked to accept it. An account
  without code is not asked. A contract runs \<^verbatim>\<open>onERC721Received\<close>: it may call the
  store's entry points, itself or through other contracts, each nested call with its
  caller, and a nested call that reverts is caught and leaves the storage as it was. Then
  it returns the selector (\<open>None\<close>) or makes the mint revert (\<open>Some e\<close>): with
  \<^verbatim>\<open>ERC721InvalidReceiver\<close> for another return value or a revert without a reason, with
  its own error otherwise. A nested \<^verbatim>\<open>createReport\<close> mints again, to a receiver with
  code of its own, so the two types are mutually recursive.
\<close>

datatype nft_call =
    CreateReport ReportType address string bytes32 receiver
  | SubmitReport uint256
  | ReviewReport uint256 bool
  | SealReport uint256
  | UpdateReportData uint256 string bytes32
and receiver =
    NoCode
  | OnERC721Received "(address \<times> nft_call) list" "error option"

text \<open>
  \<^verbatim>\<open>createReport\<close> raises the counter, mints through \<^verbatim>\<open>_safeMint\<close>, and only then
  writes \<^verbatim>\<open>reports[tokenId]\<close> and the two indexes. The write is unconditional: it
  replaces whatever the nested calls of the receiver left under the new id. The nested
  calls run in the same transaction, so they see the same \<^verbatim>\<open>block.timestamp\<close>; the
  code of the receiver, which is \<^verbatim>\<open>msg.sender\<close>, is the argument \<open>code\<close>.
\<close>

function (sequential)
  checkOnERC721Received :: "uint256 \<Rightarrow> receiver \<Rightarrow> RegulatoryNFT \<Rightarrow> error + RegulatoryNFT"
  and safeMint ::
    "uint256 \<Rightarrow> address \<Rightarrow> uint256 \<Rightarrow> receiver \<Rightarrow> RegulatoryNFT \<Rightarrow> error + RegulatoryNFT"
  and createReport ::
    "address \<Rightarrow> uint256 \<Rightarrow> ReportType \<Rightarrow> address \<Rightarrow> string \<Rightarrow> bytes32 \<Rightarrow> receiver
       \<Rightarrow> RegulatoryNFT \<Rightarrow> error + uint256 \<times> RegulatoryNFT"
  and nft_call_result ::
    "address \<Rightarrow> uint256 \<Rightarrow> nft_call \<Rightarrow> RegulatoryNFT \<Rightarrow> error + RegulatoryNFT"
  and nft_callback ::
    "uint256 \<Rightarrow> (address \<times> nft_call) list \<Rightarrow> RegulatoryNFT \<Rightarrow> RegulatoryNFT" where
  "checkOnERC721Received block_timestamp NoCode s = Inr s"
| "checkOnERC721Received block_timestamp (OnERC721Received calls outcome) s =
     (case outcome of
        None \<Rightarrow> Inr (nft_callback block_timestamp calls s)
      | Some e \<Rightarrow> Inl e)"
| "safeMint block_timestamp to tokenId code s =
     (case mint to tokenId s of
        Inl e \<Rightarrow> Inl e
      | Inr s1 \<Rightarrow> checkOnERC721Received block_timestamp code s1)"
| "createReport msg_sender block_timestamp reportType subject ipfsHash dataHash code s =
     (if \<not> nft_roles s COMPLIANCE_OFFICER_ROLE msg_sender then Inl AccessControlUnauthorizedAccount
      else if \<not> subject \<noteq> 0 then Inl (Revert ''Invalid subject'')
      else if \<not> length ipfsHash > 0 then Inl (Revert ''IPFS hash required'')
      else if \<not> dataHash \<noteq> 0 then Inl (Revert ''Data hash required'')
      else
        case checked_add (tokenIdCounter s) 1 of
          Inl e \<Rightarrow> Inl e
        | Inr tokenId \<Rightarrow>
            (case safeMint block_timestamp msg_sender tokenId code (s\<lparr>tokenIdCounter := tokenId\<rparr>) of
               Inl e \<Rightarrow> Inl e
             | Inr s1 \<Rightarrow>
                 Inr (tokenId,
                      s1\<lparr>reports := (reports s1)(tokenId :=
                           \<lparr>rp_tokenId = tokenId, rp_reportType = reportType, rp_status = DRAFT,
                            rp_subject = subject, rp_issuer = msg_sender,
                            rp_timestamp = block_timestamp, rp_reviewTimestamp = 0,
                            rp_reviewer = 0, rp_ipfsHash = ipfsHash, rp_dataHash = dataHash,
                            rp_isSealed = False\<rparr>),
                         subjectReports :=
                           (subjectReports s1)(subject := subjectReports s1 subject @ [tokenId]),
                         issuerReports :=
                           (issuerReports s1)(msg_sender := issuerReports s1 msg_sender @ [tokenId])\<rparr>)))"
| "nft_call_result msg_sender block_timestamp (CreateReport reportType subject ipfsHash dataHash code) s =
     (case createReport msg_sender block_timestamp reportType subject ipfsHash dataHash code s of
        Inl e \<Rightarrow> Inl e
      | Inr (tokenId, s') \<Rightarrow> Inr s')"
| "nft_call_result msg_sender block_timestamp (SubmitReport tokenId) s =
     submitReport msg_sender tokenId s"
| "nft_call_result msg_sender block_timestamp (ReviewReport tokenId approved) s =
     reviewReport msg_sender block_timestamp tokenId approved s"
| "nft_call_result msg_sender block_timestamp (SealReport tokenId) s =
     sealReport msg_sender tokenId s"
| "nft_call_result msg_sender block_timestamp (UpdateReportData tokenId newIpfsHash newDataHash) s =
     updateReportData msg_sender tokenId newIpfsHash newDataHash s"
| "nft_callback block_timestamp [] s = s"
| "nft_callback block_timestamp ((caller, call) # calls) s =
     nft_callback block_timestamp calls
       (case nft_call_result caller block_timestamp call s of Inl e \<Rightarrow> s | Inr s' \<Rightarrow> s')"
  by pat_completeness auto

termination
  apply (relation "measures
    [case_sum
       (case_sum (\<lambda>(t, code, s). size code) (\<lambda>(t, to, tokenId, code, s). size code))
       (case_sum (\<lambda>(m, t, rt, subj, ipfs, dh, code, s). size code)
          (case_sum (\<lambda>(c, t, call, s). size call)
             (\<lambda>(t, calls, s). size_list (size_prod (\<lambda>_. 0) size) calls))),
     case_sum
       (case_sum (\<lambda>_. 0) (\<lambda>_. 1))
       (case_sum (\<lambda>_. 2) (\<lambda>_. (0::nat)))]")
       apply simp_all
  done

text \<open>
  A history of transactions sent to the store, each with its sender and its block's
  timestamp. A transaction that reverts leaves the storage as it was; \<open>nft_transact\<close>
  says so.
\<close>

definition nft_transact :: "address \<times> uint256 \<times> nft_call \<Rightarrow> RegulatoryNFT \<Rightarrow> RegulatoryNFT" where
  "nft_transact tx s =
     (case tx of (msg_sender, block_timestamp, call) \<Rightarrow>
        (case nft_call_result msg_sender block_timestamp call s of
           Inl e \<Rightarrow> s
         | Inr s' \<Rightarrow> s'))"

fun nft_history :: "(address \<times> uint256 \<times> nft_call) list \<Rightarrow> RegulatoryNFT \<Rightarrow> RegulatoryNFT" where
  "nft_history [] s = s"
| "nft_history (tx # txs) s = nft_history txs (nft_transact tx s)"

text \<open>
  A call whose sender has no code: every call but a \<^verbatim>\<open>createReport\<close> that mints to a
  contract.
\<close>

fun sender_without_code :: "nft_call \<Rightarrow> bool" where
  "sender_without_code (CreateReport reportType subject ipfsHash dataHash code) = (code = NoCode)"
| "sender_without_code call = True"

text \<open>
  Token ids above the counter have never been minted: their report is the zero value and
  they have no owner.
\<close>

definition nft_fresh_above :: "RegulatoryNFT \<Rightarrow> bool" where
  "nft_fresh_above s =
     (\<forall>tokenId. tokenIdCounter s < tokenId \<longrightarrow>
        reports s tokenId = ComplianceReport_zero \<and> owners s tokenId = 0)"


section \<open>The precedence table of the decision function\<close>

text \<open>
  Follows the spec's words, to be compared with \<open>checkTransaction\<close>: the checks that come
  before the daily limit, as an ordered table of condition and verdict, read by
  \<open>first_match\<close>. The reason strings are the contract's.
\<close>

definition checkTransaction_rules ::
  "address \<Rightarrow> address \<Rightarrow> ComplianceEnforcement \<Rightarrow> ComplianceOracle \<Rightarrow> RiskRegistry
     \<Rightarrow> (bool \<times> bool \<times> EnforcementAction \<times> string) list" where
  "checkTransaction_rules from to s complianceOracle riskRegistry =
     [(\<not> enforcementEnabled s, (True, EnforcementAction.NONE, [])),
      (as_whitelisted (accountStatuses s from), (True, EnforcementAction.NONE, ''Whitelisted'')),
      (as_frozen (accountStatuses s from), (False, FREEZE, ''Account frozen'')),
      (as_frozen (accountStatuses s to), (False, BLOCK, ''Recipient frozen'')),
      (isSanctioned complianceOracle from, (False, FREEZE, ''Sender sanctioned'')),
      (isSanctioned complianceOracle to, (False, BLOCK, ''Recipient sanctioned'')),
      (getRiskLevel riskRegistry from = RiskLevel.CRITICAL,
         (False, FREEZE, ''Critical risk - sender'')),
      (getRiskLevel riskRegistry to = RiskLevel.CRITICAL,
         (False, BLOCK, ''Critical risk - recipient'')),
      (getRiskLevel riskRegistry from = RiskLevel.HIGH,
         (False, DELAY, ''High risk - requires review''))]"

fun first_match :: "(bool \<times> 'a) list \<Rightarrow> 'a option" where
  "first_match [] = None"
| "first_match ((condition, verdict) # rules) =
     (if condition then Some verdict else first_match rules)"


section \<open>Example deployment\<close>

text \<open>
  Concrete states for evaluating the theorems: the contracts as deployed by account 1,
  with the oracle contract at address 16 and the monitor contract at address 17, both
  granted \<open>ORACLE_ROLE\<close> on the registry as the integration test's set-up does.
\<close>

definition deployer :: address where
  "deployer = 1"

definition user1 :: address where
  "user1 = 2"

definition user2 :: address where
  "user2 = 3"

definition oracle_address :: address where
  "oracle_address = 16"

definition monitor_address :: address where
  "monitor_address = 17"

definition registry_deployed :: RiskRegistry where
  "registry_deployed =
     (RiskRegistry_constructor deployer)
       \<lparr>rr_roles := (\<lambda>r a. rr_roles (RiskRegistry_constructor deployer) r a \<or>
                       (r = ORACLE_ROLE \<and> (a = oracle_address \<or> a = monitor_address)))\<rparr>"

definition registry_mismatch :: "error + RiskRegistry" where
  "registry_mismatch =
     assessRisk deployer 1000 user1 RiskLevel.NONE 95 ''Manual review'' registry_deployed"

definition registry_assessed :: "error + RiskRegistry" where
  "registry_assessed =
     assessRisk deployer 1000 user1 RiskLevel.MEDIUM 55 ''Suspicious pattern detected''
       registry_deployed"

definition registry_reassessed :: "error + RiskRegistry" where
  "registry_reassessed =
     assessRisk deployer 2000 user1 RiskLevel.HIGH 85 ''High risk activity detected''
       (projr registry_assessed)"

definition registry_rescored :: "error + RiskRegistry" where
  "registry_rescored = updateRiskScore deployer 2000 user1 85 (projr registry_assessed)"


text \<open>
  A stand-in for \<^verbatim>\<open>keccak256\<close> in the examples: the length of its input. The
  theorems hold for every hash function; the examples need one that evaluates.
\<close>

definition keccak256_stub :: "bytes \<Rightarrow> bytes32" where
  "keccak256_stub bs = of_nat (length bs)"

definition oracle_registered :: "error + bytes32 \<times> ComplianceOracle" where
  "oracle_registered =
     registerDataSource keccak256_stub deployer 1000 ''OFAC'' ''https://ofac.treasury.gov''
       (ComplianceOracle_constructor deployer)"

definition ofac_sourceId :: bytes32 where
  "ofac_sourceId = fst (projr oracle_registered)"

definition oracle_with_source :: ComplianceOracle where
  "oracle_with_source = snd (projr oracle_registered)"

definition user1_sanctioned :: "error + ComplianceOracle \<times> RiskRegistry" where
  "user1_sanctioned =
     sanctionAddress oracle_address deployer 3000 user1 ofac_sourceId ''OFAC sanctioned entity''
       (oracle_with_source, projr registry_assessed)"


definition enforcement_deployed :: ComplianceEnforcement where
  "enforcement_deployed = ComplianceEnforcement_constructor deployer"

definition enforcement_spent_one :: "error + ComplianceEnforcement" where
  "enforcement_spent_one = recordSpending deployer 1700000000 user1 1 enforcement_deployed"

definition enforcement_whitelisted :: "error + ComplianceEnforcement" where
  "enforcement_whitelisted = whitelistAccount deployer user1 enforcement_deployed"

definition enforcement_whitelisted_frozen :: "error + ComplianceEnforcement" where
  "enforcement_whitelisted_frozen =
     freezeAccount deployer 2000 user1 ''Critical risk detected'' (projr enforcement_whitelisted)"

definition enforcement_frozen :: "error + ComplianceEnforcement" where
  "enforcement_frozen =
     freezeAccount deployer 2000 user1 ''Critical risk detected'' enforcement_deployed"


definition enforcement_limited :: "error + ComplianceEnforcement" where
  "enforcement_limited = setDailyLimit deployer user1 100 enforcement_deployed"

definition enforcement_spent :: "error + ComplianceEnforcement" where
  "enforcement_spent = recordSpending deployer 1700000000 user1 95 (projr enforcement_limited)"


definition delayed_created :: "error + bytes32 \<times> ComplianceEnforcement" where
  "delayed_created =
     createDelayedTransaction keccak256_stub deployer 1700000000 user1 user2 500 [1, 2]
       enforcement_deployed"

definition delayed_approved :: "error + ComplianceEnforcement" where
  "delayed_approved =
     approveDelayedTransaction deployer (fst (projr delayed_created)) (snd (projr delayed_created))"

definition delayed_executed :: "error + ComplianceEnforcement" where
  "delayed_executed =
     executeDelayedTransaction 1700086400 (fst (projr delayed_created)) (projr delayed_approved)"

definition delayed_created_again :: "error + bytes32 \<times> ComplianceEnforcement" where
  "delayed_created_again =
     createDelayedTransaction keccak256_stub deployer 1700000000 user1 user2 500 [3]
       (projr delayed_approved)"


definition monitor_deployed :: TransactionMonitor where
  "monitor_deployed = TransactionMonitor_constructor deployer"

definition analysis_first :: "error + TransactionMonitor \<times> RiskRegistry" where
  "analysis_first =
     analyzeTransaction monitor_address deployer 1700000000 7 user1 user2 (10 ^ 19) MIXING 85
       ''Potential mixing service usage'' (ComplianceOracle_constructor deployer)
       (monitor_deployed, registry_deployed)"

definition analysis_second :: "error + TransactionMonitor \<times> RiskRegistry" where
  "analysis_second =
     analyzeTransaction monitor_address deployer 1700000100 7 user2 user1 1 NORMAL 0
       ''Reviewed'' (ComplianceOracle_constructor deployer) (projr analysis_first)"

definition analysis_sanctioned :: "error + TransactionMonitor \<times> RiskRegistry" where
  "analysis_sanctioned =
     analyzeTransaction monitor_address deployer 1700000000 8 user2 user1 5 STRUCTURING 75
       ''Structuring detected'' (fst (projr user1_sanctioned))
       (monitor_deployed, snd (projr user1_sanctioned))"

definition alert_resolved :: "error + TransactionMonitor" where
  "alert_resolved = resolveAlert deployer 1 (fst (projr analysis_first))"

definition thresholds_updated :: "error + TransactionMonitor" where
  "thresholds_updated = updateThresholds deployer 60 80 (fst (projr analysis_first))"

text \<open>
  The report store with a second officer: the contract at address 32, which the admin has
  granted \<open>COMPLIANCE_OFFICER_ROLE\<close> and \<open>AUDITOR_ROLE\<close>. Asked to accept a token, its
  \<^verbatim>\<open>onERC721Received\<close> submits, approves and seals report 1 and returns the selector.
\<close>

definition officer_contract :: address where
  "officer_contract = 32"

definition store_with_officer_contract :: RegulatoryNFT where
  "store_with_officer_contract =
     RegulatoryNFT_deployed
       (\<lambda>r a. a = deployer \<and> (r = DEFAULT_ADMIN_ROLE \<or> r = AUDITOR_ROLE \<or> r = COMPLIANCE_OFFICER_ROLE)
             \<or> a = officer_contract \<and> (r = AUDITOR_ROLE \<or> r = COMPLIANCE_OFFICER_ROLE))"

definition sealing_receiver :: receiver where
  "sealing_receiver =
     OnERC721Received
       [(officer_contract, SubmitReport 1),
        (officer_contract, ReviewReport 1 True),
        (officer_contract, SealReport 1)]
       None"

text \<open>
  The storage when \<^verbatim>\<open>_safeMint\<close> returns inside the contract's \<^verbatim>\<open>createReport\<close>, and
  the result of that \<^verbatim>\<open>createReport\<close>.
\<close>

definition report_sealed_in_callback :: "error + RegulatoryNFT" where
  "report_sealed_in_callback =
     safeMint 1700000000 officer_contract 1 sealing_receiver
       (store_with_officer_contract\<lparr>tokenIdCounter := 1\<rparr>)"

definition report_recreated :: "error + uint256 \<times> RegulatoryNFT" where
  "report_recreated =
     createReport officer_contract 1700000000 SUSPICIOUS_ACTIVITY user1 ''QmTest123'' 99
       sealing_receiver store_with_officer_contract"


section \<open>Properties of the risk registry\<close>

lemma checked_add_Inr:
  "checked_add a b = Inr c \<longleftrightarrow> unat a + unat b < 2 ^ 256 \<and> c = a + b"
  by (auto simp: checked_add_def)

lemma checked_add_Inl:
  "checked_add a b = Inl e \<longleftrightarrow> \<not> unat a + unat b < 2 ^ 256 \<and> e = Panic"
  by (auto simp: checked_add_def)

lemma assessRisk_stored:
  assumes "assessRisk msg_sender block_timestamp target level score reason s = Inr s'"
  shows "riskAssessments s' target =
           (riskAssessments s target)
             \<lparr>ra_level := level, ra_score := score, ra_timestamp := block_timestamp,
              ra_reason := reason, ra_assessor := msg_sender, ra_active := True\<rparr>"
    and "score \<le> 100" and "reason \<noteq> []" and "target \<noteq> 0"
    and "rr_roles s ORACLE_ROLE msg_sender"
  using assms
  by (auto simp: assessRisk_def Let_def split: if_splits sum.splits)

lemma updateRiskScore_stored:
  assumes "updateRiskScore msg_sender block_timestamp target newScore s = Inr s'"
  shows "ra_score (riskAssessments s' target) = newScore"
    and "ra_level (riskAssessments s' target) = scoreToLevel newScore"
    and "ra_active (riskAssessments s' target)"
  using assms
  by (auto simp: updateRiskScore_def Let_def split: if_splits)

lemmas registry_examples =
  deployer_def user1_def user2_def oracle_address_def monitor_address_def registry_deployed_def
  RiskRegistry_constructor_def RiskAssessment_zero_def

lemma scoreToLevel_unat:
  "scoreToLevel s =
     (if 90 \<le> unat s then RiskLevel.CRITICAL
      else if 70 \<le> unat s then RiskLevel.HIGH
      else if 40 \<le> unat s then RiskLevel.MEDIUM
      else if 10 \<le> unat s then RiskLevel.LOW
      else RiskLevel.NONE)"
  by (simp add: scoreToLevel_def word_le_nat_alt)

text \<open>
  Claim C2, as stated, fails: \<^verbatim>\<open>assessRisk\<close> stores the level its caller passes and
  never compares it with the score. Assessing \<open>user1\<close> with level \<open>NONE\<close> and score 95
  succeeds and leaves \<open>getRiskLevel = NONE\<close>, where the table gives \<open>CRITICAL\<close> for 95.
\<close>

theorem assessRisk_level_mismatch:
  "\<not> isl registry_mismatch
   \<and> getRiskScore (projr registry_mismatch) user1 = 95
   \<and> getRiskLevel (projr registry_mismatch) user1 = RiskLevel.NONE
   \<and> scoreToLevel 95 = RiskLevel.CRITICAL"
  by (simp add: registry_examples registry_mismatch_def assessRisk_def checked_add_def
        getRiskScore_def getRiskLevel_def scoreToLevel_def)

text \<open>
  Claim C2, amended. After a successful \<^verbatim>\<open>assessRisk(account, level, s, reason)\<close> the
  score is at most 100, the reason is not empty, \<^verbatim>\<open>getRiskScore\<close> returns \<open>s\<close> and
  \<^verbatim>\<open>getRiskLevel\<close> returns the level that was passed; it agrees with the score-to-level
  table exactly when the caller passed the table's level. The table is applied by
  \<^verbatim>\<open>updateRiskScore\<close>: after it succeeds the level is the table's level of the new score.
  The table is \<open>\<ge> 90\<close> CRITICAL, \<open>\<ge> 70\<close> HIGH, \<open>\<ge> 40\<close> MEDIUM, \<open>\<ge> 10\<close> LOW, else NONE,
  with the boundaries at 9/10, 39/40, 69/70 and 89/90.
\<close>

theorem assessRisk_stores_given_level:
  "(assessRisk msg_sender block_timestamp account level s reason rr = Inr rr' \<longrightarrow>
      s \<le> 100 \<and> reason \<noteq> [] \<and> getRiskScore rr' account = s \<and> getRiskLevel rr' account = level
      \<and> (getRiskLevel rr' account = scoreToLevel s \<longleftrightarrow> level = scoreToLevel s))
   \<and> (updateRiskScore msg_sender block_timestamp account s rr = Inr rr'' \<longrightarrow>
      s \<le> 100 \<and> getRiskScore rr'' account = s \<and> getRiskLevel rr'' account = scoreToLevel s)
   \<and> scoreToLevel s =
       (if 90 \<le> unat s then RiskLevel.CRITICAL
        else if 70 \<le> unat s then RiskLevel.HIGH
        else if 40 \<le> unat s then RiskLevel.MEDIUM
        else if 10 \<le> unat s then RiskLevel.LOW
        else RiskLevel.NONE)
   \<and> scoreToLevel 9 = RiskLevel.NONE \<and> scoreToLevel 10 = RiskLevel.LOW
   \<and> scoreToLevel 39 = RiskLevel.LOW \<and> scoreToLevel 40 = RiskLevel.MEDIUM
   \<and> scoreToLevel 69 = RiskLevel.MEDIUM \<and> scoreToLevel 70 = RiskLevel.HIGH
   \<and> scoreToLevel 89 = RiskLevel.HIGH \<and> scoreToLevel 90 = RiskLevel.CRITICAL"
proof (intro conjI impI)
  assume a: "assessRisk msg_sender block_timestamp account level s reason rr = Inr rr'"
  note st = assessRisk_stored [OF a]
  show "s \<le> 100" by (rule st(2))
  show "reason \<noteq> []" by (rule st(3))
  show "getRiskScore rr' account = s" by (simp add: getRiskScore_def st(1))
  show lv: "getRiskLevel rr' account = level" by (simp add: getRiskLevel_def st(1))
  show "getRiskLevel rr' account = scoreToLevel s \<longleftrightarrow> level = scoreToLevel s" by (simp add: lv)
next
  assume u: "updateRiskScore msg_sender block_timestamp account s rr = Inr rr''"
  note st = updateRiskScore_stored [OF u]
  show "s \<le> 100" using u by (simp add: updateRiskScore_def split: if_splits)
  show "getRiskScore rr'' account = s" by (simp add: getRiskScore_def st)
  show "getRiskLevel rr'' account = scoreToLevel s" by (simp add: getRiskLevel_def st)
qed (simp_all add: scoreToLevel_unat)

text \<open>
  The theorem at a concrete registry: \<open>user1\<close>, first assessed MEDIUM/55, is assessed
  again as HIGH/85, and separately re-scored to 85.
\<close>

theorem assessRisk_stores_given_level_witness:
  "assessRisk deployer 2000 user1 RiskLevel.HIGH 85 ''High risk activity detected''
       (projr registry_assessed) = Inr (projr registry_reassessed)
   \<and> getRiskScore (projr registry_reassessed) user1 = 85
   \<and> getRiskLevel (projr registry_reassessed) user1 = RiskLevel.HIGH
   \<and> updateRiskScore deployer 2000 user1 85 (projr registry_assessed) = Inr (projr registry_rescored)
   \<and> getRiskScore (projr registry_rescored) user1 = 85
   \<and> getRiskLevel (projr registry_rescored) user1 = RiskLevel.HIGH"
proof -
  have a: "assessRisk deployer 2000 user1 RiskLevel.HIGH 85 ''High risk activity detected''
             (projr registry_assessed) = Inr (projr registry_reassessed)"
    by (simp add: registry_examples registry_assessed_def registry_reassessed_def assessRisk_def
          checked_add_def)
  have u: "updateRiskScore deployer 2000 user1 85 (projr registry_assessed)
             = Inr (projr registry_rescored)"
    by (simp add: registry_examples registry_assessed_def registry_rescored_def assessRisk_def
          updateRiskScore_def checked_add_def scoreToLevel_def)
  have s: "scoreToLevel 85 = RiskLevel.HIGH"
    by (simp add: scoreToLevel_def)
  from assessRisk_stores_given_level
         [of deployer 2000 user1 RiskLevel.HIGH 85 "''High risk activity detected''"
             "projr registry_assessed" "projr registry_reassessed" "projr registry_rescored"]
       a u s
  show ?thesis by simp
qed

section \<open>Properties of the compliance oracle\<close>

lemmas oracle_examples =
  keccak256_stub_def oracle_registered_def ofac_sourceId_def oracle_with_source_def
  ComplianceOracle_constructor_def registerDataSource_def encodePacked_string_def
  encodePacked_uint256_def big_endian_def

lemma ofac_sourceId_eq: "ofac_sourceId = 36"
  by (simp add: oracle_examples registry_examples)

lemma sanctionAddress_Inr:
  assumes "sanctionAddress this msg_sender block_timestamp target dataSourceId reason (co, rr)
             = Inr (co', rr')"
  shows "co' = co\<lparr>sanctionedAddresses := (sanctionedAddresses co)(target := True)\<rparr>"
    and "assessRisk this block_timestamp target RiskLevel.CRITICAL 100 reason rr = Inr rr'"
    and "ds_active (dataSources co dataSourceId)"
    and "co_roles co ORACLE_UPDATER_ROLE msg_sender"
  using assms
  by (auto simp: sanctionAddress_def Let_def split: if_splits sum.splits)

lemma user1_sanctioned_Inr:
  "sanctionAddress oracle_address deployer 3000 user1 ofac_sourceId ''OFAC sanctioned entity''
       (oracle_with_source, projr registry_assessed)
     = Inr (fst (projr user1_sanctioned), snd (projr user1_sanctioned))"
  by (simp add: user1_sanctioned_def ofac_sourceId_eq sanctionAddress_def assessRisk_def
        checked_add_def registry_assessed_def registry_examples oracle_examples Let_def)

lemma user1_sanctioned_state:
  "isSanctioned (fst (projr user1_sanctioned)) user1"
  "getRiskLevel (snd (projr user1_sanctioned)) user1 = RiskLevel.CRITICAL"
  by (simp_all add: user1_sanctioned_def ofac_sourceId_eq sanctionAddress_def assessRisk_def
        checked_add_def registry_assessed_def registry_examples oracle_examples Let_def
        isSanctioned_def getRiskLevel_def)

text \<open>
  Claim C4. Whatever the oracle and the registry held before, a successful
  \<^verbatim>\<open>sanctionAddress(account, sourceId, reason)\<close> was made on an active data source and
  leaves \<^verbatim>\<open>isSanctioned(account)\<close> true, \<^verbatim>\<open>getRiskLevel(account) = CRITICAL\<close> and
  \<^verbatim>\<open>getRiskScore(account) = 100\<close>. The registry afterwards is the registry before with
  \<^verbatim>\<open>assessRisk(account, CRITICAL, 100, reason)\<close> applied, in the same call.
\<close>

theorem sanctionAddress_forces_critical:
  assumes "sanctionAddress this msg_sender block_timestamp account sourceId reason (co, rr)
             = Inr (co', rr')"
  shows "ds_active (dataSources co sourceId)
    \<and> isSanctioned co' account
    \<and> getRiskLevel rr' account = RiskLevel.CRITICAL
    \<and> getRiskScore rr' account = 100
    \<and> assessRisk this block_timestamp account RiskLevel.CRITICAL 100 reason rr = Inr rr'"
proof -
  note sa = sanctionAddress_Inr [OF assms]
  note st = assessRisk_stored [OF sa(2)]
  show ?thesis
    by (simp add: sa isSanctioned_def getRiskLevel_def getRiskScore_def st(1))
qed

text \<open>
  The theorem at a concrete state: \<open>user1\<close>, assessed MEDIUM/55 before, is sanctioned
  on the registered OFAC source.
\<close>

theorem sanctionAddress_forces_critical_witness:
  "sanctionAddress oracle_address deployer 3000 user1 ofac_sourceId ''OFAC sanctioned entity''
       (oracle_with_source, projr registry_assessed)
     = Inr (fst (projr user1_sanctioned), snd (projr user1_sanctioned))
   \<and> getRiskLevel (projr registry_assessed) user1 = RiskLevel.MEDIUM
   \<and> isSanctioned (fst (projr user1_sanctioned)) user1
   \<and> getRiskLevel (snd (projr user1_sanctioned)) user1 = RiskLevel.CRITICAL
   \<and> getRiskScore (snd (projr user1_sanctioned)) user1 = 100"
proof -
  note h = user1_sanctioned_Inr
  have m: "getRiskLevel (projr registry_assessed) user1 = RiskLevel.MEDIUM"
    by (simp add: registry_assessed_def registry_examples assessRisk_def checked_add_def
          getRiskLevel_def)
  from sanctionAddress_forces_critical [OF h] m h show ?thesis by simp
qed

section \<open>Properties of the enforcement engine\<close>

lemmas enforcement_examples =
  enforcement_deployed_def ComplianceEnforcement_constructor_def AccountStatus_zero_def
  DelayedTransaction_zero_def seconds_1_days_def seconds_24_hours_def wei_1000_ether_def

lemma checkDailyLimit_Inl:
  "checkDailyLimit block_timestamp account amount s = Inl e \<longleftrightarrow>
     e = Panic \<and>
     (2 ^ 256 \<le> unat (as_lastResetTimestamp (accountStatuses s account)) + 86400
      \<or> (unat block_timestamp < unat (as_lastResetTimestamp (accountStatuses s account)) + 86400
          \<and> 2 ^ 256 \<le> unat (as_dailySpent (accountStatuses s account)) + unat amount))"
  by (auto simp: checkDailyLimit_def checked_add_def seconds_1_days_def Let_def word_le_nat_alt
        unat_word_ariths split: if_splits sum.splits)

lemma checkDailyLimit_Inr:
  "checkDailyLimit block_timestamp account amount s = Inr exceeded \<Longrightarrow>
     exceeded =
       (let status = accountStatuses s account;
            limit = (if 0 < unat (as_dailyLimit status) then unat (as_dailyLimit status)
                     else unat (defaultDailyLimit s))
        in if unat (as_lastResetTimestamp status) + 86400 \<le> unat block_timestamp
           then limit < unat amount
           else limit < unat (as_dailySpent status) + unat amount)"
  by (auto simp: checkDailyLimit_def checked_add_def seconds_1_days_def Let_def word_le_nat_alt
        word_less_nat_alt unat_word_ariths unat_gt_0 split: if_splits sum.splits)

text \<open>
  Claim C1, as stated, fails for some amounts: the daily-limit check adds in checked
  256-bit arithmetic. After \<^verbatim>\<open>recordSpending(user1, 1)\<close>, a check of the largest amount
  inside the same window makes \<^verbatim>\<open>dailySpent + amount\<close> overflow, and \<^verbatim>\<open>checkTransaction\<close>
  reverts with a panic instead of returning a verdict.
\<close>

theorem checkTransaction_overflow_reverts:
  "checkTransaction 1700000001 user1 user2 (2 ^ 256 - 1) (projr enforcement_spent_one)
     (ComplianceOracle_constructor deployer) registry_deployed = Inl Panic"
  by (simp add: enforcement_spent_one_def recordSpending_def checkTransaction_def
        checkDailyLimit_def checked_add_def enforcement_examples registry_examples
        ComplianceOracle_constructor_def isSanctioned_def getRiskLevel_def Let_def)

text \<open>
  Claim C1, amended. For every sender, receiver and amount, \<^verbatim>\<open>checkTransaction\<close> returns
  the verdict of the first matching row of the precedence table (enforcement disabled,
  sender whitelisted, sender frozen, receiver frozen, sender sanctioned, receiver
  sanctioned, sender CRITICAL, receiver CRITICAL, sender HIGH). When no row matches, it
  runs the daily-limit check: it reverts if that check overflows, denies with LIMIT if the
  limit is exceeded, and allows otherwise. The check overflows exactly when
  \<^verbatim>\<open>lastResetTimestamp + 1 days\<close> does not fit in 256 bits, or the window is open and
  \<^verbatim>\<open>dailySpent + amount\<close> does not fit. With enforcement enabled a whitelisted sender
  gets \<open>(true, NONE, Whitelisted)\<close> whatever its freeze, sanction or risk state.
\<close>

theorem checkTransaction_first_match:
  "checkTransaction block_timestamp from to amount s complianceOracle riskRegistry =
     (case first_match (checkTransaction_rules from to s complianceOracle riskRegistry) of
        Some verdict \<Rightarrow> Inr verdict
      | None \<Rightarrow>
          (case checkDailyLimit block_timestamp from amount s of
             Inl e \<Rightarrow> Inl e
           | Inr exceeded \<Rightarrow>
               Inr (if exceeded then (False, LIMIT, ''Daily limit exceeded'')
                    else (True, EnforcementAction.NONE, []))))
   \<and> (enforcementEnabled s \<and> as_whitelisted (accountStatuses s from) \<longrightarrow>
        checkTransaction block_timestamp from to amount s complianceOracle riskRegistry
          = Inr (True, EnforcementAction.NONE, ''Whitelisted''))
   \<and> (isl (checkDailyLimit block_timestamp from amount s) \<longleftrightarrow>
        2 ^ 256 \<le> unat (as_lastResetTimestamp (accountStatuses s from)) + 86400
        \<or> (unat block_timestamp < unat (as_lastResetTimestamp (accountStatuses s from)) + 86400
            \<and> 2 ^ 256 \<le> unat (as_dailySpent (accountStatuses s from)) + unat amount))"
proof (intro conjI impI)
  show "checkTransaction block_timestamp from to amount s complianceOracle riskRegistry =
     (case first_match (checkTransaction_rules from to s complianceOracle riskRegistry) of
        Some verdict \<Rightarrow> Inr verdict
      | None \<Rightarrow>
          (case checkDailyLimit block_timestamp from amount s of
             Inl e \<Rightarrow> Inl e
           | Inr exceeded \<Rightarrow>
               Inr (if exceeded then (False, LIMIT, ''Daily limit exceeded'')
                    else (True, EnforcementAction.NONE, []))))"
    by (simp add: checkTransaction_def checkTransaction_rules_def Let_def split: sum.splits)
next
  assume "enforcementEnabled s \<and> as_whitelisted (accountStatuses s from)"
  then show "checkTransaction block_timestamp from to amount s complianceOracle riskRegistry
          = Inr (True, EnforcementAction.NONE, ''Whitelisted'')"
    by (simp add: checkTransaction_def)
next
  show "isl (checkDailyLimit block_timestamp from amount s) \<longleftrightarrow>
        2 ^ 256 \<le> unat (as_lastResetTimestamp (accountStatuses s from)) + 86400
        \<or> (unat block_timestamp < unat (as_lastResetTimestamp (accountStatuses s from)) + 86400
            \<and> 2 ^ 256 \<le> unat (as_dailySpent (accountStatuses s from)) + unat amount)"
    using checkDailyLimit_Inl [of block_timestamp "from" amount s]
    by (cases "checkDailyLimit block_timestamp from amount s") auto
qed

text \<open>
  The theorem at a concrete state: \<open>user1\<close> is sanctioned, at CRITICAL risk and
  whitelisted; the verdict is the whitelist's.
\<close>

theorem checkTransaction_first_match_witness:
  "enforcementEnabled (projr enforcement_whitelisted)
   \<and> as_whitelisted (accountStatuses (projr enforcement_whitelisted) user1)
   \<and> isSanctioned (fst (projr user1_sanctioned)) user1
   \<and> getRiskLevel (snd (projr user1_sanctioned)) user1 = RiskLevel.CRITICAL
   \<and> checkTransaction 4000 user1 user2 5 (projr enforcement_whitelisted)
        (fst (projr user1_sanctioned)) (snd (projr user1_sanctioned))
      = Inr (True, EnforcementAction.NONE, ''Whitelisted'')"
proof -
  have e: "enforcementEnabled (projr enforcement_whitelisted)
           \<and> as_whitelisted (accountStatuses (projr enforcement_whitelisted) user1)"
    by (simp add: enforcement_whitelisted_def whitelistAccount_def enforcement_examples
          registry_examples)
  from checkTransaction_first_match
         [of 4000 user1 user2 5 "projr enforcement_whitelisted"
             "fst (projr user1_sanctioned)" "snd (projr user1_sanctioned)"] e
  have c: "checkTransaction 4000 user1 user2 5 (projr enforcement_whitelisted)
        (fst (projr user1_sanctioned)) (snd (projr user1_sanctioned))
      = Inr (True, EnforcementAction.NONE, ''Whitelisted'')"
    by blast
  from e user1_sanctioned_state c show ?thesis by blast
qed

lemma freezeAccount_Inr:
  assumes "freezeAccount msg_sender block_timestamp account reason s = Inr s'"
  shows "s' = s\<lparr>accountStatuses := (accountStatuses s)(account :=
                    (accountStatuses s account)
                      \<lparr>as_frozen := True, as_freezeTimestamp := block_timestamp,
                       as_freezeInitiator := msg_sender, as_freezeReason := reason\<rparr>)\<rparr>"
    and "\<not> as_frozen (accountStatuses s account)"
  using assms by (auto simp: freezeAccount_def split: if_splits)

text \<open>
  Claim C3, as stated, fails: the whitelist is checked before the freeze. \<open>user1\<close> is
  whitelisted and then frozen; \<^verbatim>\<open>checkTransaction\<close> still allows its transfer.
\<close>

theorem whitelisted_then_frozen_is_allowed:
  "\<not> isl enforcement_whitelisted_frozen
   \<and> as_frozen (accountStatuses (projr enforcement_whitelisted_frozen) user1)
   \<and> checkTransaction 2001 user1 user2 1 (projr enforcement_whitelisted_frozen)
        (ComplianceOracle_constructor deployer) registry_deployed
      = Inr (True, EnforcementAction.NONE, ''Whitelisted'')"
  by (simp add: enforcement_whitelisted_frozen_def enforcement_whitelisted_def whitelistAccount_def
        freezeAccount_def checkTransaction_def enforcement_examples registry_examples)

text \<open>
  Claim C3, amended. After a successful \<^verbatim>\<open>freezeAccount(A)\<close> the account is frozen, and
  its whitelist flag and the global switch are as before. For every receiver \<open>B\<close>, amount
  \<open>x\<close> and time: with enforcement enabled and \<open>A\<close> not whitelisted, \<^verbatim>\<open>checkTransaction(A, B, x)\<close>
  returns \<open>(false, FREEZE, Account frozen)\<close>; with enforcement enabled and \<open>A\<close>
  whitelisted, before the freeze or after it, it returns \<open>(true, NONE, Whitelisted)\<close>;
  with enforcement disabled it returns \<open>(true, NONE, empty reason)\<close>.
\<close>

theorem frozen_sender_verdict:
  assumes "freezeAccount msg_sender block_timestamp A reason s = Inr s'"
  shows "as_frozen (accountStatuses s' A)
    \<and> as_whitelisted (accountStatuses s' A) = as_whitelisted (accountStatuses s A)
    \<and> enforcementEnabled s' = enforcementEnabled s
    \<and> (enforcementEnabled s \<and> \<not> as_whitelisted (accountStatuses s A) \<longrightarrow>
         checkTransaction now A B x s' complianceOracle riskRegistry
           = Inr (False, FREEZE, ''Account frozen''))
    \<and> (enforcementEnabled s \<and> as_whitelisted (accountStatuses s A) \<longrightarrow>
         checkTransaction now A B x s' complianceOracle riskRegistry
           = Inr (True, EnforcementAction.NONE, ''Whitelisted''))
    \<and> (\<not> enforcementEnabled s \<longrightarrow>
         checkTransaction now A B x s' complianceOracle riskRegistry
           = Inr (True, EnforcementAction.NONE, []))
    \<and> (enforcementEnabled s \<and> whitelistAccount manager A s' = Inr s'' \<longrightarrow>
         checkTransaction now A B x s'' complianceOracle riskRegistry
           = Inr (True, EnforcementAction.NONE, ''Whitelisted''))"
  using freezeAccount_Inr [OF assms]
  by (auto simp: checkTransaction_def whitelistAccount_def split: if_splits)

text \<open>
  The theorem at two concrete states: \<open>user1\<close> frozen without a whitelist entry is
  denied with FREEZE; \<open>user1\<close> whitelisted and then frozen is allowed.
\<close>

theorem frozen_sender_verdict_witness:
  "freezeAccount deployer 2000 user1 ''Critical risk detected'' enforcement_deployed
     = Inr (projr enforcement_frozen)
   \<and> enforcementEnabled enforcement_deployed
   \<and> \<not> as_whitelisted (accountStatuses enforcement_deployed user1)
   \<and> checkTransaction 2001 user1 user2 1 (projr enforcement_frozen)
        (ComplianceOracle_constructor deployer) registry_deployed
      = Inr (False, FREEZE, ''Account frozen'')
   \<and> freezeAccount deployer 2000 user1 ''Critical risk detected'' (projr enforcement_whitelisted)
     = Inr (projr enforcement_whitelisted_frozen)
   \<and> as_whitelisted (accountStatuses (projr enforcement_whitelisted) user1)
   \<and> checkTransaction 2001 user1 user2 1 (projr enforcement_whitelisted_frozen)
        (ComplianceOracle_constructor deployer) registry_deployed
      = Inr (True, EnforcementAction.NONE, ''Whitelisted'')"
proof -
  have f: "freezeAccount deployer 2000 user1 ''Critical risk detected'' enforcement_deployed
     = Inr (projr enforcement_frozen)"
    by (simp add: enforcement_frozen_def freezeAccount_def enforcement_examples registry_examples)
  have e: "enforcementEnabled enforcement_deployed
           \<and> \<not> as_whitelisted (accountStatuses enforcement_deployed user1)"
    by (simp add: enforcement_examples)
  have g: "freezeAccount deployer 2000 user1 ''Critical risk detected'' (projr enforcement_whitelisted)
     = Inr (projr enforcement_whitelisted_frozen)"
    by (simp add: enforcement_whitelisted_frozen_def enforcement_whitelisted_def
          whitelistAccount_def freezeAccount_def enforcement_examples registry_examples)
  have w: "enforcementEnabled (projr enforcement_whitelisted)
           \<and> as_whitelisted (accountStatuses (projr enforcement_whitelisted) user1)"
    by (simp add: enforcement_whitelisted_def whitelistAccount_def enforcement_examples
          registry_examples)
  from frozen_sender_verdict
         [OF f, of 2001 user2 1 "ComplianceOracle_constructor deployer" registry_deployed]
       frozen_sender_verdict
         [OF g, of 2001 user2 1 "ComplianceOracle_constructor deployer" registry_deployed]
       e f g w
  show ?thesis by simp
qed

lemma unat_seconds_1_days: "unat seconds_1_days = 86400"
  by (simp add: seconds_1_days_def)

lemma checked_add_cases:
  obtains (fits) "unat a + unat b < 2 ^ 256" and "checked_add a b = Inr (a + b)"
      and "unat (a + b) = unat a + unat b"
    | (overflow) "2 ^ 256 \<le> unat a + unat b" and "checked_add a b = Inl Panic"
proof (cases "unat a + unat b < 2 ^ 256")
  case True
  then have "unat (a + b) = unat a + unat b"
    by (simp add: unat_add_lem [THEN iffD1])
  with True show ?thesis by (intro fits) (simp_all add: checked_add_def)
next
  case False
  then show ?thesis by (intro overflow) (simp_all add: checked_add_def)
qed

lemma recordSpending_Inr:
  assumes "recordSpending msg_sender t account amount s = Inr s'"
  shows "unat (as_lastResetTimestamp (accountStatuses s account)) + 86400 < 2 ^ 256"
    and "as_dailyLimit (accountStatuses s' account) = as_dailyLimit (accountStatuses s account)"
    and "defaultDailyLimit s' = defaultDailyLimit s"
    and "enforcementEnabled s' = enforcementEnabled s"
    and "unat (as_lastResetTimestamp (accountStatuses s account)) + 86400 \<le> unat t \<Longrightarrow>
           as_dailySpent (accountStatuses s' account) = amount \<and>
           as_lastResetTimestamp (accountStatuses s' account) = t"
    and "unat t < unat (as_lastResetTimestamp (accountStatuses s account)) + 86400 \<Longrightarrow>
           unat (as_dailySpent (accountStatuses s' account))
             = unat (as_dailySpent (accountStatuses s account)) + unat amount \<and>
           as_lastResetTimestamp (accountStatuses s' account)
             = as_lastResetTimestamp (accountStatuses s account)"
proof -
  let ?st = "accountStatuses s account"
  from assms have role: "ce_roles s ENFORCER_ROLE msg_sender"
    by (simp add: recordSpending_def split: if_splits)
  consider (fits) "unat (as_lastResetTimestamp ?st) + unat seconds_1_days < 2 ^ 256"
      "checked_add (as_lastResetTimestamp ?st) seconds_1_days
         = Inr (as_lastResetTimestamp ?st + seconds_1_days)"
      "unat (as_lastResetTimestamp ?st + seconds_1_days)
         = unat (as_lastResetTimestamp ?st) + unat seconds_1_days"
    | (overflow) "checked_add (as_lastResetTimestamp ?st) seconds_1_days = Inl Panic"
    by (rule checked_add_cases [of "as_lastResetTimestamp ?st" seconds_1_days]) auto
  then have main:
    "unat (as_lastResetTimestamp ?st) + 86400 < 2 ^ 256
     \<and> as_dailyLimit (accountStatuses s' account) = as_dailyLimit ?st
     \<and> defaultDailyLimit s' = defaultDailyLimit s
     \<and> enforcementEnabled s' = enforcementEnabled s
     \<and> (unat (as_lastResetTimestamp ?st) + 86400 \<le> unat t \<longrightarrow>
           as_dailySpent (accountStatuses s' account) = amount \<and>
           as_lastResetTimestamp (accountStatuses s' account) = t)
     \<and> (unat t < unat (as_lastResetTimestamp ?st) + 86400 \<longrightarrow>
           unat (as_dailySpent (accountStatuses s' account))
             = unat (as_dailySpent ?st) + unat amount \<and>
           as_lastResetTimestamp (accountStatuses s' account) = as_lastResetTimestamp ?st)"
  proof cases
    case overflow
    with assms role show ?thesis by (simp add: recordSpending_def Let_def)
  next
    case fits
    show ?thesis
    proof (cases "unat (as_lastResetTimestamp ?st) + 86400 \<le> unat t")
      case True
      with fits have "t \<ge> as_lastResetTimestamp ?st + seconds_1_days"
        by (simp add: word_le_nat_alt unat_seconds_1_days)
      with assms role fits(2) have "s' = s\<lparr>accountStatuses := (accountStatuses s)(account :=
                             ?st\<lparr>as_dailySpent := amount, as_lastResetTimestamp := t\<rparr>)\<rparr>"
        by (simp add: recordSpending_def Let_def)
      with True fits(1) show ?thesis by (simp add: unat_seconds_1_days)
    next
      case False
      with fits have nt: "\<not> t \<ge> as_lastResetTimestamp ?st + seconds_1_days"
        by (simp add: word_le_nat_alt unat_seconds_1_days)
      show ?thesis
      proof (rule checked_add_cases [of "as_dailySpent ?st" amount])
        assume "checked_add (as_dailySpent ?st) amount = Inl Panic"
        with assms role fits(2) nt show ?thesis by (simp add: recordSpending_def Let_def)
      next
        assume sp: "checked_add (as_dailySpent ?st) amount = Inr (as_dailySpent ?st + amount)"
          and un: "unat (as_dailySpent ?st + amount) = unat (as_dailySpent ?st) + unat amount"
        from assms role fits(2) nt sp
        have "s' = s\<lparr>accountStatuses := (accountStatuses s)(account :=
                        ?st\<lparr>as_dailySpent := as_dailySpent ?st + amount\<rparr>)\<rparr>"
          by (simp add: recordSpending_def Let_def)
        with False fits(1) un show ?thesis by (simp add: unat_seconds_1_days)
      qed
    qed
  qed
  from main show "unat (as_lastResetTimestamp (accountStatuses s account)) + 86400 < 2 ^ 256"
    and "as_dailyLimit (accountStatuses s' account) = as_dailyLimit (accountStatuses s account)"
    and "defaultDailyLimit s' = defaultDailyLimit s"
    and "enforcementEnabled s' = enforcementEnabled s"
    and "unat (as_lastResetTimestamp (accountStatuses s account)) + 86400 \<le> unat t \<Longrightarrow>
           as_dailySpent (accountStatuses s' account) = amount \<and>
           as_lastResetTimestamp (accountStatuses s' account) = t"
    and "unat t < unat (as_lastResetTimestamp (accountStatuses s account)) + 86400 \<Longrightarrow>
           unat (as_dailySpent (accountStatuses s' account))
             = unat (as_dailySpent (accountStatuses s account)) + unat amount \<and>
           as_lastResetTimestamp (accountStatuses s' account)
             = as_lastResetTimestamp (accountStatuses s account)"
    by blast+
qed


lemma setDailyLimit_Inr:
  assumes "setDailyLimit msg_sender account limit s = Inr s'"
  shows "s' = s\<lparr>accountStatuses := (accountStatuses s)(account :=
                    (accountStatuses s account)\<lparr>as_dailyLimit := limit\<rparr>)\<rparr>"
  using assms by (simp add: setDailyLimit_def split: if_splits)

lemma checkTransaction_no_match:
  assumes "first_match (checkTransaction_rules from to s complianceOracle riskRegistry) = None"
  shows "checkTransaction block_timestamp from to amount s complianceOracle riskRegistry =
          (case checkDailyLimit block_timestamp from amount s of
             Inl e \<Rightarrow> Inl e
           | Inr exceeded \<Rightarrow>
               Inr (if exceeded then (False, LIMIT, ''Daily limit exceeded'')
                    else (True, EnforcementAction.NONE, [])))"
  using assms
  by (simp add: checkTransaction_def checkTransaction_rules_def Let_def split: sum.splits if_splits)

lemma checkDailyLimit_value:
  assumes "unat (as_lastResetTimestamp (accountStatuses s account)) + 86400 < 2 ^ 256"
    and "unat block_timestamp < unat (as_lastResetTimestamp (accountStatuses s account)) + 86400
           \<Longrightarrow> unat (as_dailySpent (accountStatuses s account)) + unat amount < 2 ^ 256"
  shows "checkDailyLimit block_timestamp account amount s =
     Inr (let status = accountStatuses s account;
            limit = (if 0 < unat (as_dailyLimit status) then unat (as_dailyLimit status)
                     else unat (defaultDailyLimit s))
        in if unat (as_lastResetTimestamp status) + 86400 \<le> unat block_timestamp
           then limit < unat amount
           else limit < unat (as_dailySpent status) + unat amount)"
proof (cases "checkDailyLimit block_timestamp account amount s")
  case (Inl e)
  with assms checkDailyLimit_Inl [of block_timestamp account amount s e]
  show ?thesis by linarith
next
  case (Inr b)
  from checkDailyLimit_Inr [OF Inr] Inr show ?thesis by simp
qed


lemma daily_limit_scenario:
  assumes sd: "setDailyLimit enforcer A 100 s = Inr s1"
    and rs: "recordSpending enforcer' t A 95 s1 = Inr s2"
    and tb: "unat t + 86400 < 2 ^ 256"
  shows "as_dailyLimit (accountStatuses s2 A) = 100"
    and "unat (as_lastResetTimestamp (accountStatuses s2 A)) + 86400 < 2 ^ 256"
    and "95 \<le> unat (as_dailySpent (accountStatuses s2 A))"
proof -
  note r = recordSpending_Inr [OF rs]
  show "as_dailyLimit (accountStatuses s2 A) = 100"
    using r(2) setDailyLimit_Inr [OF sd] by simp
  show "unat (as_lastResetTimestamp (accountStatuses s2 A)) + 86400 < 2 ^ 256"
  proof (cases "unat (as_lastResetTimestamp (accountStatuses s1 A)) + 86400 \<le> unat t")
    case True
    with r(5) tb show ?thesis by simp
  next
    case False
    with r(6) r(1) show ?thesis by simp
  qed
  show "95 \<le> unat (as_dailySpent (accountStatuses s2 A))"
  proof (cases "unat (as_lastResetTimestamp (accountStatuses s1 A)) + 86400 \<le> unat t")
    case True
    with r(5) show ?thesis by simp
  next
    case False
    with r(6) show ?thesis by simp
  qed
qed

text \<open>
  Claim C9. The daily-limit check compares against the account's \<^verbatim>\<open>dailyLimit\<close> when
  that is positive and against the global default otherwise; once the time has reached
  \<^verbatim>\<open>lastResetTimestamp + 1 days\<close> it compares the amount alone, before that
  \<^verbatim>\<open>dailySpent + amount\<close>; it returns whenever these sums fit in 256 bits; and
  \<^verbatim>\<open>checkTransaction\<close> turns its answer into deny LIMIT or allow when no earlier check
  matched. In the scenario of the claim (limit set to 100, then \<^verbatim>\<open>recordSpending(A, 95)\<close>,
  no earlier check matching), \<^verbatim>\<open>checkTransaction(A, B, 10)\<close> is denied with LIMIT while
  the window is open and allowed once it has elapsed.
\<close>

theorem daily_limit_check:
  "(checkDailyLimit block_timestamp A amount s = Inr exceeded \<longrightarrow>
      exceeded =
        (let status = accountStatuses s A;
             limit = (if 0 < unat (as_dailyLimit status) then unat (as_dailyLimit status)
                      else unat (defaultDailyLimit s))
         in if unat (as_lastResetTimestamp status) + 86400 \<le> unat block_timestamp
            then limit < unat amount
            else limit < unat (as_dailySpent status) + unat amount))
   \<and> (unat (as_lastResetTimestamp (accountStatuses s A)) + 86400 < 2 ^ 256
       \<and> unat (as_dailySpent (accountStatuses s A)) + unat amount < 2 ^ 256 \<longrightarrow>
         \<not> isl (checkDailyLimit block_timestamp A amount s))
   \<and> (first_match (checkTransaction_rules A B s complianceOracle riskRegistry) = None \<longrightarrow>
        checkTransaction block_timestamp A B amount s complianceOracle riskRegistry =
          (case checkDailyLimit block_timestamp A amount s of
             Inl e \<Rightarrow> Inl e
           | Inr exceeded \<Rightarrow>
               Inr (if exceeded then (False, LIMIT, ''Daily limit exceeded'')
                    else (True, EnforcementAction.NONE, []))))
   \<and> (setDailyLimit enforcer A 100 s = Inr s1
       \<and> recordSpending enforcer' t A 95 s1 = Inr s2
       \<and> unat t + 86400 < 2 ^ 256
       \<and> first_match (checkTransaction_rules A B s2 complianceOracle riskRegistry) = None \<longrightarrow>
        (unat t1 < unat (as_lastResetTimestamp (accountStatuses s2 A)) + 86400
         \<and> unat (as_dailySpent (accountStatuses s2 A)) + 10 < 2 ^ 256 \<longrightarrow>
           checkTransaction t1 A B 10 s2 complianceOracle riskRegistry
             = Inr (False, LIMIT, ''Daily limit exceeded''))
        \<and> (unat (as_lastResetTimestamp (accountStatuses s2 A)) + 86400 \<le> unat t2 \<longrightarrow>
           checkTransaction t2 A B 10 s2 complianceOracle riskRegistry
             = Inr (True, EnforcementAction.NONE, [])))"
proof (intro conjI impI)
  assume "checkDailyLimit block_timestamp A amount s = Inr exceeded"
  then show "exceeded =
        (let status = accountStatuses s A;
             limit = (if 0 < unat (as_dailyLimit status) then unat (as_dailyLimit status)
                      else unat (defaultDailyLimit s))
         in if unat (as_lastResetTimestamp status) + 86400 \<le> unat block_timestamp
            then limit < unat amount
            else limit < unat (as_dailySpent status) + unat amount)"
    by (rule checkDailyLimit_Inr)
next
  assume "unat (as_lastResetTimestamp (accountStatuses s A)) + 86400 < 2 ^ 256
       \<and> unat (as_dailySpent (accountStatuses s A)) + unat amount < 2 ^ 256"
  then show "\<not> isl (checkDailyLimit block_timestamp A amount s)"
    by (simp add: checkDailyLimit_value)
next
  assume "first_match (checkTransaction_rules A B s complianceOracle riskRegistry) = None"
  then show "checkTransaction block_timestamp A B amount s complianceOracle riskRegistry =
          (case checkDailyLimit block_timestamp A amount s of
             Inl e \<Rightarrow> Inl e
           | Inr exceeded \<Rightarrow>
               Inr (if exceeded then (False, LIMIT, ''Daily limit exceeded'')
                    else (True, EnforcementAction.NONE, [])))"
    by (rule checkTransaction_no_match)
next
  assume h: "setDailyLimit enforcer A 100 s = Inr s1
       \<and> recordSpending enforcer' t A 95 s1 = Inr s2
       \<and> unat t + 86400 < 2 ^ 256
       \<and> first_match (checkTransaction_rules A B s2 complianceOracle riskRegistry) = None"
  assume w: "unat t1 < unat (as_lastResetTimestamp (accountStatuses s2 A)) + 86400
         \<and> unat (as_dailySpent (accountStatuses s2 A)) + 10 < 2 ^ 256"
  from h have sd: "setDailyLimit enforcer A 100 s = Inr s1"
    and rs: "recordSpending enforcer' t A 95 s1 = Inr s2"
    and tb: "unat t + 86400 < 2 ^ 256"
    and nm: "first_match (checkTransaction_rules A B s2 complianceOracle riskRegistry) = None"
    by blast+
  note sc = daily_limit_scenario [OF sd rs tb]
  have "checkDailyLimit t1 A 10 s2 = Inr True"
    using w sc by (subst checkDailyLimit_value) (simp_all add: Let_def)
  then show "checkTransaction t1 A B 10 s2 complianceOracle riskRegistry
             = Inr (False, LIMIT, ''Daily limit exceeded'')"
    by (simp add: checkTransaction_no_match [OF nm])
next
  assume h: "setDailyLimit enforcer A 100 s = Inr s1
       \<and> recordSpending enforcer' t A 95 s1 = Inr s2
       \<and> unat t + 86400 < 2 ^ 256
       \<and> first_match (checkTransaction_rules A B s2 complianceOracle riskRegistry) = None"
  assume w: "unat (as_lastResetTimestamp (accountStatuses s2 A)) + 86400 \<le> unat t2"
  from h have sd: "setDailyLimit enforcer A 100 s = Inr s1"
    and rs: "recordSpending enforcer' t A 95 s1 = Inr s2"
    and tb: "unat t + 86400 < 2 ^ 256"
    and nm: "first_match (checkTransaction_rules A B s2 complianceOracle riskRegistry) = None"
    by blast+
  note sc = daily_limit_scenario [OF sd rs tb]
  have "checkDailyLimit t2 A 10 s2 = Inr False"
    using w sc by (subst checkDailyLimit_value) (simp_all add: Let_def)
  then show "checkTransaction t2 A B 10 s2 complianceOracle riskRegistry
             = Inr (True, EnforcementAction.NONE, [])"
    by (simp add: checkTransaction_no_match [OF nm])
qed


lemma enforcement_spent_status:
  "accountStatuses (projr enforcement_spent) user1 =
     AccountStatus_zero\<lparr>as_dailyLimit := 100, as_dailySpent := 95,
                         as_lastResetTimestamp := 1700000000\<rparr>"
  by (simp add: enforcement_spent_def enforcement_limited_def setDailyLimit_def recordSpending_def
        checked_add_def Let_def enforcement_examples registry_examples)

text \<open>
  The theorem at the scenario itself: limit 100, 95 spent at time 1700000000; a transfer of
  10 is denied one second later and allowed a day later.
\<close>

theorem daily_limit_check_witness:
  "setDailyLimit deployer user1 100 enforcement_deployed = Inr (projr enforcement_limited)
   \<and> recordSpending deployer 1700000000 user1 95 (projr enforcement_limited)
       = Inr (projr enforcement_spent)
   \<and> first_match (checkTransaction_rules user1 user2 (projr enforcement_spent)
         (ComplianceOracle_constructor deployer) registry_deployed) = None
   \<and> checkDailyLimit 1700000001 user1 10 (projr enforcement_spent) = Inr True
   \<and> checkTransaction 1700000001 user1 user2 10 (projr enforcement_spent)
        (ComplianceOracle_constructor deployer) registry_deployed
      = Inr (False, LIMIT, ''Daily limit exceeded'')
   \<and> checkTransaction 1700086400 user1 user2 10 (projr enforcement_spent)
        (ComplianceOracle_constructor deployer) registry_deployed
      = Inr (True, EnforcementAction.NONE, [])"
proof -
  have sd: "setDailyLimit deployer user1 100 enforcement_deployed = Inr (projr enforcement_limited)"
    by (simp add: enforcement_limited_def setDailyLimit_def enforcement_examples registry_examples)
  have rs: "recordSpending deployer 1700000000 user1 95 (projr enforcement_limited)
       = Inr (projr enforcement_spent)"
    by (simp add: enforcement_spent_def enforcement_limited_def setDailyLimit_def
          recordSpending_def checked_add_def Let_def enforcement_examples registry_examples)
  have nm: "first_match (checkTransaction_rules user1 user2 (projr enforcement_spent)
         (ComplianceOracle_constructor deployer) registry_deployed) = None"
    by (simp add: checkTransaction_rules_def enforcement_spent_def enforcement_limited_def
          setDailyLimit_def recordSpending_def checked_add_def Let_def enforcement_examples
          registry_examples ComplianceOracle_constructor_def isSanctioned_def getRiskLevel_def)
  have tb: "unat (1700000000 :: uint256) + 86400 < 2 ^ 256"
    by simp
  have w1: "unat (1700000001 :: uint256)
              < unat (as_lastResetTimestamp (accountStatuses (projr enforcement_spent) user1)) + 86400
            \<and> unat (as_dailySpent (accountStatuses (projr enforcement_spent) user1)) + 10 < 2 ^ 256"
    by (simp add: enforcement_spent_status)
  have w2: "unat (as_lastResetTimestamp (accountStatuses (projr enforcement_spent) user1)) + 86400
              \<le> unat (1700086400 :: uint256)"
    by (simp add: enforcement_spent_status)
  have dl: "checkDailyLimit 1700000001 user1 10 (projr enforcement_spent) = Inr True"
    by (simp add: checkDailyLimit_def enforcement_spent_status checked_add_def Let_def
          seconds_1_days_def)
  note c9 = daily_limit_check [where A = user1 and B = user2 and s = enforcement_deployed
                   and ?s1.0 = "projr enforcement_limited" and ?s2.0 = "projr enforcement_spent"
                   and enforcer = deployer and enforcer' = deployer and t = 1700000000
                   and ?t1.0 = 1700000001 and ?t2.0 = 1700086400
                   and complianceOracle = "ComplianceOracle_constructor deployer"
                   and riskRegistry = registry_deployed]
  from c9 sd rs nm tb w1
  have v1: "checkTransaction 1700000001 user1 user2 10 (projr enforcement_spent)
        (ComplianceOracle_constructor deployer) registry_deployed
      = Inr (False, LIMIT, ''Daily limit exceeded'')"
    by blast
  from c9 sd rs nm tb w2
  have v2: "checkTransaction 1700086400 user1 user2 10 (projr enforcement_spent)
        (ComplianceOracle_constructor deployer) registry_deployed
      = Inr (True, EnforcementAction.NONE, [])"
    by blast
  from sd rs nm dl v1 v2 show ?thesis by blast
qed

text \<open>
  Claim C8. For every delayed-transaction record: \<^verbatim>\<open>executeDelayedTransaction\<close> fails
  while the record is not approved; fails while the time is before \<^verbatim>\<open>delayUntil\<close>;
  succeeds exactly when the record is approved, not executed and the time has reached
  \<^verbatim>\<open>delayUntil\<close>, setting the executed flag, after which every further attempt fails;
  and \<^verbatim>\<open>approveDelayedTransaction\<close> fails on a record that is already executed or
  already approved, and otherwise only sets the approval.
\<close>

theorem delayed_transaction_lifecycle:
  "(\<not> dt_approved (delayedTransactions s txId) \<longrightarrow>
      executeDelayedTransaction now txId s = Inl (Revert ''Not approved''))
   \<and> (dt_approved (delayedTransactions s txId) \<and> \<not> dt_executed (delayedTransactions s txId)
       \<and> now < dt_delayUntil (delayedTransactions s txId) \<longrightarrow>
      executeDelayedTransaction now txId s = Inl (Revert ''Still delayed''))
   \<and> (dt_approved (delayedTransactions s txId) \<and> \<not> dt_executed (delayedTransactions s txId)
       \<and> dt_delayUntil (delayedTransactions s txId) \<le> now \<longrightarrow>
      \<not> isl (executeDelayedTransaction now txId s)
      \<and> dt_executed (delayedTransactions (projr (executeDelayedTransaction now txId s)) txId)
      \<and> executeDelayedTransaction later txId (projr (executeDelayedTransaction now txId s))
          = Inl (Revert ''Already executed''))
   \<and> (now < dt_delayUntil (delayedTransactions s txId) \<longrightarrow>
      isl (executeDelayedTransaction now txId s))
   \<and> (\<not> isl (executeDelayedTransaction now txId s) \<longleftrightarrow>
      dt_approved (delayedTransactions s txId) \<and> \<not> dt_executed (delayedTransactions s txId)
      \<and> dt_delayUntil (delayedTransactions s txId) \<le> now)
   \<and> (dt_executed (delayedTransactions s txId) \<longrightarrow>
      isl (executeDelayedTransaction now txId s)
      \<and> isl (approveDelayedTransaction msg_sender txId s))
   \<and> (dt_approved (delayedTransactions s txId) \<longrightarrow>
      isl (approveDelayedTransaction msg_sender txId s))
   \<and> (approveDelayedTransaction msg_sender txId s = Inr s' \<longrightarrow>
      dt_approved (delayedTransactions s' txId)
      \<and> dt_executed (delayedTransactions s' txId) = dt_executed (delayedTransactions s txId)
      \<and> dt_delayUntil (delayedTransactions s' txId) = dt_delayUntil (delayedTransactions s txId))"
  by (auto simp: executeDelayedTransaction_def approveDelayedTransaction_def Let_def not_le
           split: if_splits)

lemma delayed_created_eq:
  "fst (projr delayed_created) = 104"
  "delayedTransactions (snd (projr delayed_created)) 104 =
     \<lparr>dt_txId = 104, dt_from = user1, dt_to = user2, dt_amount = 500, dt_data = [1, 2],
      dt_delayUntil = 1700086400, dt_executed = False, dt_approved = False, dt_reviewer = 0\<rparr>"
  "ce_roles (snd (projr delayed_created)) = ce_roles enforcement_deployed"
  by (simp_all add: delayed_created_def createDelayedTransaction_def keccak256_stub_def
        encodePacked_address_def encodePacked_uint256_def big_endian_def checked_add_def Let_def
        enforcement_examples registry_examples)


lemma delayed_approved_eq:
  "approveDelayedTransaction deployer 104 (snd (projr delayed_created)) = Inr (projr delayed_approved)"
  "delayedTransactions (projr delayed_approved) 104 =
     \<lparr>dt_txId = 104, dt_from = user1, dt_to = user2, dt_amount = 500, dt_data = [1, 2],
      dt_delayUntil = 1700086400, dt_executed = False, dt_approved = True, dt_reviewer = deployer\<rparr>"
  "ce_roles (projr delayed_approved) = ce_roles enforcement_deployed"
  by (simp_all add: delayed_approved_def delayed_created_eq approveDelayedTransaction_def Let_def
        enforcement_examples registry_examples)

lemma delayed_executed_eq:
  "executeDelayedTransaction 1700086400 104 (projr delayed_approved) = Inr (projr delayed_executed)"
  by (simp add: delayed_executed_def delayed_created_eq delayed_approved_eq
        executeDelayedTransaction_def Let_def)

text \<open>
  The theorem along one record's life: created at 1700000000, approved, executed a day
  later, and tried once more.
\<close>

theorem delayed_transaction_lifecycle_witness:
  "\<not> dt_approved (delayedTransactions (snd (projr delayed_created)) 104)
   \<and> executeDelayedTransaction 1700086400 104 (snd (projr delayed_created))
       = Inl (Revert ''Not approved'')
   \<and> approveDelayedTransaction deployer 104 (snd (projr delayed_created))
       = Inr (projr delayed_approved)
   \<and> isl (approveDelayedTransaction deployer 104 (projr delayed_approved))
   \<and> executeDelayedTransaction 1700000001 104 (projr delayed_approved)
       = Inl (Revert ''Still delayed'')
   \<and> executeDelayedTransaction 1700086400 104 (projr delayed_approved)
       = Inr (projr delayed_executed)
   \<and> executeDelayedTransaction 1700090000 104 (projr delayed_executed)
       = Inl (Revert ''Already executed'')"
proof -
  have c: "\<not> dt_approved (delayedTransactions (snd (projr delayed_created)) 104)"
    by (simp add: delayed_created_eq)
  have a: "dt_approved (delayedTransactions (projr delayed_approved) 104)
           \<and> \<not> dt_executed (delayedTransactions (projr delayed_approved) 104)"
    by (simp add: delayed_approved_eq)
  have early: "(1700000001 :: uint256) < dt_delayUntil (delayedTransactions (projr delayed_approved) 104)"
    by (simp add: delayed_approved_eq)
  have due: "dt_delayUntil (delayedTransactions (projr delayed_approved) 104) \<le> (1700086400 :: uint256)"
    by (simp add: delayed_approved_eq)
  note before = delayed_transaction_lifecycle [where s = "snd (projr delayed_created)" and txId = 104
                      and now = 1700086400 and msg_sender = deployer and s' = "projr delayed_approved"]
  note waiting = delayed_transaction_lifecycle [where s = "projr delayed_approved" and txId = 104
                       and now = 1700000001 and msg_sender = deployer]
  note ready = delayed_transaction_lifecycle [where s = "projr delayed_approved" and txId = 104
                     and now = 1700086400 and later = 1700090000]
  from before c
  have r1: "executeDelayedTransaction 1700086400 104 (snd (projr delayed_created))
       = Inl (Revert ''Not approved'')"
    by blast
  from waiting a early
  have r2: "executeDelayedTransaction 1700000001 104 (projr delayed_approved)
       = Inl (Revert ''Still delayed'')"
    and r3: "isl (approveDelayedTransaction deployer 104 (projr delayed_approved))"
    by blast+
  from ready a due
  have r4: "executeDelayedTransaction 1700090000 104
              (projr (executeDelayedTransaction 1700086400 104 (projr delayed_approved)))
       = Inl (Revert ''Already executed'')"
    by blast
  from c r1 delayed_approved_eq(1) r3 r2 delayed_executed_eq r4 show ?thesis
    by simp
qed

lemma createDelayedTransaction_Inr:
  assumes "createDelayedTransaction keccak256 msg_sender t from to amount data s = Inr (txId, s')"
  shows "txId = keccak256 (encodePacked_address from @ encodePacked_address to @
                           encodePacked_uint256 amount @ encodePacked_uint256 t)"
    and "s' = s\<lparr>delayedTransactions := (delayedTransactions s)(txId :=
                   \<lparr>dt_txId = txId, dt_from = from, dt_to = to, dt_amount = amount,
                    dt_data = data, dt_delayUntil = t + delayPeriod s, dt_executed = False,
                    dt_approved = False, dt_reviewer = 0\<rparr>),
                 accountDelayedTxs :=
                   (accountDelayedTxs s)(from := accountDelayedTxs s from @ [txId])\<rparr>"
    and "ce_roles s ENFORCER_ROLE msg_sender"
    and "unat t + unat (delayPeriod s) < 2 ^ 256"
  using assms
  by (auto simp: createDelayedTransaction_def checked_add_def Let_def split: if_splits)

lemma approveDelayedTransaction_Inr:
  assumes "approveDelayedTransaction msg_sender txId s = Inr s'"
  shows "s' = s\<lparr>delayedTransactions := (delayedTransactions s)(txId :=
                   (delayedTransactions s txId)\<lparr>dt_approved := True, dt_reviewer := msg_sender\<rparr>)\<rparr>"
  using assms
  by (auto simp: approveDelayedTransaction_def Let_def split: if_splits)

text \<open>
  Claim C10. The id that \<^verbatim>\<open>createDelayedTransaction\<close> returns is the hash of the packed
  \<open>(from, to, amount, block.timestamp)\<close> and of nothing else, and the call writes a fresh
  record under it and appends the id to the sender's index. So a second call with the same
  sender, receiver and amount at the same timestamp succeeds with the same id, replaces the
  first record even after it was approved (approved and executed are false again, the
  payload is the second call's) and leaves the id twice in the sender's index.
\<close>

theorem createDelayedTransaction_id_collision:
  "(createDelayedTransaction keccak256 msg_sender t from to amount data s = Inr (txId, s1) \<longrightarrow>
      txId = keccak256 (encodePacked_address from @ encodePacked_address to @
                        encodePacked_uint256 amount @ encodePacked_uint256 t)
      \<and> delayedTransactions s1 txId =
          \<lparr>dt_txId = txId, dt_from = from, dt_to = to, dt_amount = amount, dt_data = data,
           dt_delayUntil = t + delayPeriod s, dt_executed = False, dt_approved = False,
           dt_reviewer = 0\<rparr>
      \<and> accountDelayedTxs s1 from = accountDelayedTxs s from @ [txId])
   \<and> (createDelayedTransaction keccak256 msg_sender t from to amount data s = Inr (txId, s1)
       \<and> approveDelayedTransaction reviewer txId s1 = Inr s2 \<longrightarrow>
      dt_approved (delayedTransactions s2 txId)
      \<and> \<not> isl (createDelayedTransaction keccak256 msg_sender t from to amount data' s2)
      \<and> fst (projr (createDelayedTransaction keccak256 msg_sender t from to amount data' s2)) = txId)
   \<and> (createDelayedTransaction keccak256 msg_sender t from to amount data s = Inr (txId, s1)
       \<and> approveDelayedTransaction reviewer txId s1 = Inr s2
       \<and> createDelayedTransaction keccak256 msg_sender' t from to amount data' s2 = Inr (txId', s3)
      \<longrightarrow>
      txId' = txId
      \<and> delayedTransactions s3 txId =
          \<lparr>dt_txId = txId, dt_from = from, dt_to = to, dt_amount = amount, dt_data = data',
           dt_delayUntil = t + delayPeriod s, dt_executed = False, dt_approved = False,
           dt_reviewer = 0\<rparr>
      \<and> accountDelayedTxs s3 from = accountDelayedTxs s from @ [txId, txId])"
proof (intro conjI impI)
  assume c: "createDelayedTransaction keccak256 msg_sender t from to amount data s = Inr (txId, s1)"
  note c1 = createDelayedTransaction_Inr [OF c]
  show "txId = keccak256 (encodePacked_address from @ encodePacked_address to @
                        encodePacked_uint256 amount @ encodePacked_uint256 t)"
    by (rule c1(1))
  show "delayedTransactions s1 txId =
          \<lparr>dt_txId = txId, dt_from = from, dt_to = to, dt_amount = amount, dt_data = data,
           dt_delayUntil = t + delayPeriod s, dt_executed = False, dt_approved = False,
           dt_reviewer = 0\<rparr>"
    by (simp add: c1(2))
  show "accountDelayedTxs s1 from = accountDelayedTxs s from @ [txId]"
    by (simp add: c1(2))
next
  assume h: "createDelayedTransaction keccak256 msg_sender t from to amount data s = Inr (txId, s1)
       \<and> approveDelayedTransaction reviewer txId s1 = Inr s2"
  then have c: "createDelayedTransaction keccak256 msg_sender t from to amount data s = Inr (txId, s1)"
    and a: "approveDelayedTransaction reviewer txId s1 = Inr s2"
    by blast+
  note c1 = createDelayedTransaction_Inr [OF c]
  note a1 = approveDelayedTransaction_Inr [OF a]
  show "dt_approved (delayedTransactions s2 txId)"
    by (simp add: a1)
  have again: "createDelayedTransaction keccak256 msg_sender t from to amount data' s2 =
          Inr (txId, s2\<lparr>delayedTransactions := (delayedTransactions s2)(txId :=
                   \<lparr>dt_txId = txId, dt_from = from, dt_to = to, dt_amount = amount,
                    dt_data = data', dt_delayUntil = t + delayPeriod s2, dt_executed = False,
                    dt_approved = False, dt_reviewer = 0\<rparr>),
                 accountDelayedTxs :=
                   (accountDelayedTxs s2)(from := accountDelayedTxs s2 from @ [txId])\<rparr>)"
    using c1(1,3,4)
    by (simp add: createDelayedTransaction_def checked_add_def Let_def a1 c1(2))
  show "\<not> isl (createDelayedTransaction keccak256 msg_sender t from to amount data' s2)"
    by (simp add: again)
  show "fst (projr (createDelayedTransaction keccak256 msg_sender t from to amount data' s2)) = txId"
    by (simp add: again)
next
  assume h: "createDelayedTransaction keccak256 msg_sender t from to amount data s = Inr (txId, s1)
       \<and> approveDelayedTransaction reviewer txId s1 = Inr s2
       \<and> createDelayedTransaction keccak256 msg_sender' t from to amount data' s2 = Inr (txId', s3)"
  then have c: "createDelayedTransaction keccak256 msg_sender t from to amount data s = Inr (txId, s1)"
    and a: "approveDelayedTransaction reviewer txId s1 = Inr s2"
    and d: "createDelayedTransaction keccak256 msg_sender' t from to amount data' s2 = Inr (txId', s3)"
    by blast+
  note c1 = createDelayedTransaction_Inr [OF c]
  note a1 = approveDelayedTransaction_Inr [OF a]
  note d1 = createDelayedTransaction_Inr [OF d]
  show same: "txId' = txId"
    using c1(1) d1(1) by simp
  show "delayedTransactions s3 txId =
          \<lparr>dt_txId = txId, dt_from = from, dt_to = to, dt_amount = amount, dt_data = data',
           dt_delayUntil = t + delayPeriod s, dt_executed = False, dt_approved = False,
           dt_reviewer = 0\<rparr>"
    using same by (simp add: d1(2) a1 c1(2))
  show "accountDelayedTxs s3 from = accountDelayedTxs s from @ [txId, txId]"
    using same by (simp add: d1(2) a1 c1(2))
qed


lemma delayed_created_Inr:
  "createDelayedTransaction keccak256_stub deployer 1700000000 user1 user2 500 [1, 2]
     enforcement_deployed = Inr (104, snd (projr delayed_created))"
  by (simp add: delayed_created_def createDelayedTransaction_def keccak256_stub_def
        encodePacked_address_def encodePacked_uint256_def big_endian_def checked_add_def Let_def
        enforcement_examples registry_examples)

lemma delayed_created_again_Inr:
  "createDelayedTransaction keccak256_stub deployer 1700000000 user1 user2 500 [3]
     (projr delayed_approved) = Inr (104, snd (projr delayed_created_again))"
  by (simp add: delayed_created_again_def createDelayedTransaction_def keccak256_stub_def
        encodePacked_address_def encodePacked_uint256_def big_endian_def checked_add_def Let_def
        delayed_approved_eq delayed_approved_def delayed_created_eq approveDelayedTransaction_def
        delayed_created_def enforcement_examples registry_examples)

text \<open>
  The theorem at a concrete pair of calls, with the first record approved in between.
\<close>

theorem createDelayedTransaction_id_collision_witness:
  "createDelayedTransaction keccak256_stub deployer 1700000000 user1 user2 500 [1, 2]
     enforcement_deployed = Inr (104, snd (projr delayed_created))
   \<and> approveDelayedTransaction deployer 104 (snd (projr delayed_created))
       = Inr (projr delayed_approved)
   \<and> createDelayedTransaction keccak256_stub deployer 1700000000 user1 user2 500 [3]
       (projr delayed_approved) = Inr (104, snd (projr delayed_created_again))
   \<and> dt_approved (delayedTransactions (projr delayed_approved) 104)
   \<and> \<not> dt_approved (delayedTransactions (snd (projr delayed_created_again)) 104)
   \<and> \<not> dt_executed (delayedTransactions (snd (projr delayed_created_again)) 104)
   \<and> dt_data (delayedTransactions (snd (projr delayed_created_again)) 104) = [3]
   \<and> accountDelayedTxs (snd (projr delayed_created_again)) user1 = [104, 104]"
proof -
  note c = createDelayedTransaction_id_collision [of keccak256_stub deployer 1700000000 user1 user2 500 "[1, 2]"
                   enforcement_deployed 104 "snd (projr delayed_created)" deployer
                   "projr delayed_approved" "[3]" deployer 104
                   "snd (projr delayed_created_again)"]
  have e: "accountDelayedTxs enforcement_deployed user1 = []"
    by (simp add: enforcement_examples)
  from c delayed_created_Inr delayed_approved_eq(1) delayed_created_again_Inr
  have "dt_approved (delayedTransactions (projr delayed_approved) 104)"
    and "delayedTransactions (snd (projr delayed_created_again)) 104 =
          \<lparr>dt_txId = 104, dt_from = user1, dt_to = user2, dt_amount = 500, dt_data = [3],
           dt_delayUntil = 1700000000 + delayPeriod enforcement_deployed, dt_executed = False,
           dt_approved = False, dt_reviewer = 0\<rparr>"
    and "accountDelayedTxs (snd (projr delayed_created_again)) user1
           = accountDelayedTxs enforcement_deployed user1 @ [104, 104]"
    by blast+
  with e delayed_created_Inr delayed_approved_eq(1) delayed_created_again_Inr
  show ?thesis by simp
qed

section \<open>Properties of the transaction monitor\<close>

lemma scoreToRiskLevel_eq: "scoreToRiskLevel score = scoreToLevel score"
  by (simp add: scoreToRiskLevel_def scoreToLevel_def)

lemma assessRisk_getters:
  assumes "assessRisk msg_sender block_timestamp target level score reason s = Inr s'"
  shows "getRiskScore s' target = score" and "getRiskLevel s' target = level"
  using assessRisk_stored(1) [OF assms]
  by (simp_all add: getRiskScore_def getRiskLevel_def)

lemma unat_add_fits:
  fixes a b :: uint256
  assumes "unat a + unat b < 2 ^ 256"
  shows "unat (a + b) = unat a + unat b"
proof (rule checked_add_cases [of a b])
  assume "2 ^ 256 \<le> unat a + unat b"
  with assms show ?thesis by simp
qed

lemma checked_add_one_Inr:
  assumes "checked_add a 1 = Inr n"
  shows "n = a + 1" and "unat n = unat a + 1"
proof -
  show n: "n = a + 1"
    using assms by (simp add: checked_add_Inr)
  show "unat n = unat a + 1"
  proof (rule checked_add_cases [of a 1])
    assume "unat (a + 1) = unat a + unat (1 :: uint256)"
    with n show ?thesis by simp
  next
    assume "checked_add a 1 = Inl Panic"
    with assms show ?thesis by simp
  qed
qed

lemma createAlert_Inr:
  assumes "createAlert t target pattern severity description s = Inr s'"
  shows "unat (alertCounter s') = unat (alertCounter s) + 1"
    and "alerts s' (alertCounter s') =
           \<lparr>al_id = alertCounter s', al_target = target, al_pattern = pattern,
            al_severity = severity, al_description = description, al_timestamp = t,
            al_resolved = False, al_resolver = 0\<rparr>"
    and "flaggedTransactionCount s' = flaggedTransactionCount s"
    and "transactionAnalyses s' = transactionAnalyses s"
    and "addressTransactions s' = addressTransactions s"
proof -
  from assms obtain n where n: "checked_add (alertCounter s) 1 = Inr n"
    and s': "s' = s\<lparr>alertCounter := n,
                 alerts := (alerts s)(n :=
                   \<lparr>al_id = n, al_target = target, al_pattern = pattern, al_severity = severity,
                    al_description = description, al_timestamp = t,
                    al_resolved = False, al_resolver = 0\<rparr>)\<rparr>"
    by (auto simp: createAlert_def split: sum.splits)
  show "unat (alertCounter s') = unat (alertCounter s) + 1"
    using checked_add_one_Inr(2) [OF n] by (simp add: s')
  show "alerts s' (alertCounter s') =
           \<lparr>al_id = alertCounter s', al_target = target, al_pattern = pattern,
            al_severity = severity, al_description = description, al_timestamp = t,
            al_resolved = False, al_resolver = 0\<rparr>"
    by (simp add: s')
  show "flaggedTransactionCount s' = flaggedTransactionCount s"
    and "transactionAnalyses s' = transactionAnalyses s"
    and "addressTransactions s' = addressTransactions s"
    by (simp_all add: s')
qed

lemma updateRiskScores_Inr:
  assumes "updateRiskScores this t from to anomalyScore complianceOracle rr = Inr rr'"
  shows "unat (getRiskScore rr from) + unat anomalyScore < 2 ^ 256"
    and "\<not> isl (assessRisk this t from (scoreToRiskLevel ((getRiskScore rr from + anomalyScore) div 2))
                 ((getRiskScore rr from + anomalyScore) div 2)
                 ''Automated risk update from transaction monitoring'' rr)"
    and "(if isSanctioned complianceOracle to
          then assessRisk this t from RiskLevel.CRITICAL 100 ''Interaction with sanctioned address''
                 (projr (assessRisk this t from
                    (scoreToRiskLevel ((getRiskScore rr from + anomalyScore) div 2))
                    ((getRiskScore rr from + anomalyScore) div 2)
                    ''Automated risk update from transaction monitoring'' rr)) = Inr rr'
          else rr' = projr (assessRisk this t from
                    (scoreToRiskLevel ((getRiskScore rr from + anomalyScore) div 2))
                    ((getRiskScore rr from + anomalyScore) div 2)
                    ''Automated risk update from transaction monitoring'' rr))"
  using assms
  by (auto simp: updateRiskScores_def checked_add_Inr Let_def split: sum.splits if_splits)

lemma analyzeTransaction_flagged_Inr:
  assumes "analyzeTransaction this msg_sender t txHash from to amount pattern anomalyScore notes
             complianceOracle (s, rr) = Inr (s', rr')"
    and "anomalyScore \<ge> highRiskThreshold s \<or> pattern \<noteq> NORMAL"
  obtains n s3 where
    "s3 = s\<lparr>transactionAnalyses := (transactionAnalyses s)(txHash :=
                \<lparr>ta_txHash = txHash, ta_from = from, ta_to = to, ta_amount = amount,
                 ta_pattern = pattern, ta_severity = calculateSeverity s anomalyScore pattern,
                 ta_anomalyScore = anomalyScore, ta_timestamp = t, ta_flagged = True,
                 ta_notes = notes\<rparr>),
              addressTransactions :=
                ((addressTransactions s)(from := addressTransactions s from @ [txHash]))
                  (to := ((addressTransactions s)(from := addressTransactions s from @ [txHash])) to
                           @ [txHash])\<rparr>"
    and "checked_add (flaggedTransactionCount s) 1 = Inr n"
    and "createAlert t from pattern (calculateSeverity s anomalyScore pattern) notes
           (s3\<lparr>flaggedTransactionCount := n\<rparr>) = Inr s'"
    and "updateRiskScores this t from to anomalyScore complianceOracle rr = Inr rr'"
  using assms
  by (auto simp: analyzeTransaction_def Let_def split: sum.splits if_splits)


text \<open>
  Claim C7. When \<^verbatim>\<open>analyzeTransaction\<close> succeeds on a flagged transaction (anomaly
  score at or above the high-risk threshold, or a pattern other than NORMAL), the stored
  analysis is flagged, the flagged-transaction counter and the alert counter have grown by
  one, and the new alert is stored under the new counter. The sender's risk is written
  first as the integer average of its current score and the anomaly score, with the level
  the score-to-level table gives the average; and if the receiver is sanctioned, a second
  \<^verbatim>\<open>assessRisk\<close> on the registry the first write left sets CRITICAL with score 100,
  which is what the registry holds afterwards. Without a sanctioned receiver the registry
  afterwards is the one the first write left.
\<close>

theorem analyzeTransaction_flagged_effects:
  assumes ok: "analyzeTransaction this msg_sender t txHash from to amount pattern anomalyScore
                 notes complianceOracle (s, rr) = Inr (s', rr')"
    and flagged: "anomalyScore \<ge> highRiskThreshold s \<or> pattern \<noteq> NORMAL"
  shows "ta_flagged (transactionAnalyses s' txHash)
    \<and> unat (flaggedTransactionCount s') = unat (flaggedTransactionCount s) + 1
    \<and> unat (alertCounter s') = unat (alertCounter s) + 1
    \<and> alerts s' (alertCounter s') =
         \<lparr>al_id = alertCounter s', al_target = from, al_pattern = pattern,
          al_severity = calculateSeverity s anomalyScore pattern, al_description = notes,
          al_timestamp = t, al_resolved = False, al_resolver = 0\<rparr>
    \<and> (let averaged = (getRiskScore rr from + anomalyScore) div 2;
            first_write = assessRisk this t from (scoreToLevel averaged) averaged
                            ''Automated risk update from transaction monitoring'' rr
        in unat averaged = (unat (getRiskScore rr from) + unat anomalyScore) div 2
           \<and> \<not> isl first_write
           \<and> getRiskScore (projr first_write) from = averaged
           \<and> getRiskLevel (projr first_write) from = scoreToLevel averaged
           \<and> (if isSanctioned complianceOracle to
               then assessRisk this t from RiskLevel.CRITICAL 100
                      ''Interaction with sanctioned address'' (projr first_write) = Inr rr'
                    \<and> getRiskScore rr' from = 100
                    \<and> getRiskLevel rr' from = RiskLevel.CRITICAL
               else rr' = projr first_write))"
proof -
  from ok flagged obtain n s3 where
    s3: "s3 = s\<lparr>transactionAnalyses := (transactionAnalyses s)(txHash :=
                \<lparr>ta_txHash = txHash, ta_from = from, ta_to = to, ta_amount = amount,
                 ta_pattern = pattern, ta_severity = calculateSeverity s anomalyScore pattern,
                 ta_anomalyScore = anomalyScore, ta_timestamp = t, ta_flagged = True,
                 ta_notes = notes\<rparr>),
              addressTransactions :=
                ((addressTransactions s)(from := addressTransactions s from @ [txHash]))
                  (to := ((addressTransactions s)(from := addressTransactions s from @ [txHash])) to
                           @ [txHash])\<rparr>"
    and n: "checked_add (flaggedTransactionCount s) 1 = Inr n"
    and al: "createAlert t from pattern (calculateSeverity s anomalyScore pattern) notes
           (s3\<lparr>flaggedTransactionCount := n\<rparr>) = Inr s'"
    and up: "updateRiskScores this t from to anomalyScore complianceOracle rr = Inr rr'"
    by (rule analyzeTransaction_flagged_Inr)
  note a = createAlert_Inr [OF al]
  note u = updateRiskScores_Inr [OF up]
  let ?avg = "(getRiskScore rr from + anomalyScore) div 2"
  let ?first = "assessRisk this t from (scoreToLevel ?avg) ?avg
                  ''Automated risk update from transaction monitoring'' rr"
  have c1: "ta_flagged (transactionAnalyses s' txHash)"
    by (simp add: a(4) s3)
  have c2: "unat (flaggedTransactionCount s') = unat (flaggedTransactionCount s) + 1"
    using checked_add_one_Inr(2) [OF n] by (simp add: a(3))
  have c3: "unat (alertCounter s') = unat (alertCounter s) + 1"
    using a(1) by (simp add: s3)
  have "unat (getRiskScore rr from + anomalyScore)
          = unat (getRiskScore rr from) + unat anomalyScore"
    using u(1) by (rule unat_add_fits)
  then have c5: "unat ?avg = (unat (getRiskScore rr from) + unat anomalyScore) div 2"
    by (simp add: unat_div)
  from u(2) have c6: "\<not> isl ?first"
    by (simp add: scoreToRiskLevel_eq)
  then obtain rr1 where rr1: "?first = Inr rr1"
    by (cases ?first) auto
  have p: "projr ?first = rr1"
    by (simp only: rr1 sum.sel)
  have c7: "getRiskScore (projr ?first) from = ?avg"
    and c8: "getRiskLevel (projr ?first) from = scoreToLevel ?avg"
    using assessRisk_getters [OF rr1] by (simp_all only: p)
  have c9: "if isSanctioned complianceOracle to
            then assessRisk this t from RiskLevel.CRITICAL 100
                   ''Interaction with sanctioned address'' (projr ?first) = Inr rr'
                 \<and> getRiskScore rr' from = 100
                 \<and> getRiskLevel rr' from = RiskLevel.CRITICAL
            else rr' = projr ?first"
  proof (cases "isSanctioned complianceOracle to")
    case True
    with u(3) have second: "assessRisk this t from RiskLevel.CRITICAL 100
                   ''Interaction with sanctioned address'' (projr ?first) = Inr rr'"
      by (simp add: scoreToRiskLevel_eq)
    from True second assessRisk_getters [OF second] show ?thesis
      by simp
  next
    case False
    with u(3) show ?thesis by (simp add: scoreToRiskLevel_eq)
  qed
  from c1 c2 c3 a(2) c5 c6 c7 c8 c9 show ?thesis
    unfolding Let_def by blast
qed


lemmas monitor_examples =
  monitor_deployed_def TransactionMonitor_constructor_def analyzeTransaction_def
  calculateSeverity_def createAlert_def updateRiskScores_def scoreToRiskLevel_def
  assessRisk_def checked_add_def getRiskScore_def isSanctioned_def Let_def
  ComplianceOracle_constructor_def

lemma analysis_first_Inr:
  "analyzeTransaction monitor_address deployer 1700000000 7 user1 user2 (10 ^ 19) MIXING 85
       ''Potential mixing service usage'' (ComplianceOracle_constructor deployer)
       (monitor_deployed, registry_deployed)
     = Inr (fst (projr analysis_first), snd (projr analysis_first))"
  by (simp add: analysis_first_def monitor_examples registry_examples)

lemma analysis_first_stored:
  "transactionAnalyses (fst (projr analysis_first)) 7 =
     \<lparr>ta_txHash = 7, ta_from = user1, ta_to = user2, ta_amount = 10 ^ 19, ta_pattern = MIXING,
      ta_severity = AlertSeverity.HIGH, ta_anomalyScore = 85, ta_timestamp = 1700000000,
      ta_flagged = True, ta_notes = ''Potential mixing service usage''\<rparr>"
  "tm_roles (fst (projr analysis_first)) = tm_roles monitor_deployed"
  "highRiskThreshold (fst (projr analysis_first)) = 70"
  "criticalRiskThreshold (fst (projr analysis_first)) = 90"
  "rr_roles (snd (projr analysis_first)) = rr_roles registry_deployed"
  "al_resolved (alerts (fst (projr analysis_first)) 1) = False"
  by (simp_all add: analysis_first_def monitor_examples registry_examples)


lemma analysis_sanctioned_Inr:
  "analyzeTransaction monitor_address deployer 1700000000 8 user2 user1 5 STRUCTURING 75
       ''Structuring detected'' (fst (projr user1_sanctioned))
       (monitor_deployed, snd (projr user1_sanctioned))
     = Inr (fst (projr analysis_sanctioned), snd (projr analysis_sanctioned))"
  by (simp add: analysis_sanctioned_def monitor_examples registry_examples
        user1_sanctioned_def ofac_sourceId_eq sanctionAddress_def registry_assessed_def
        oracle_examples)

text \<open>
  The theorem at two concrete calls: a MIXING transfer with score 85 from an unassessed
  sender to an unsanctioned receiver leaves the sender at 42 and MEDIUM; a STRUCTURING
  transfer with score 75 to the sanctioned \<open>user1\<close> leaves the sender at 100 and
  CRITICAL.
\<close>

theorem analyzeTransaction_flagged_effects_witness:
  "analyzeTransaction monitor_address deployer 1700000000 7 user1 user2 (10 ^ 19) MIXING 85
       ''Potential mixing service usage'' (ComplianceOracle_constructor deployer)
       (monitor_deployed, registry_deployed)
     = Inr (fst (projr analysis_first), snd (projr analysis_first))
   \<and> highRiskThreshold monitor_deployed \<le> 85
   \<and> unat (flaggedTransactionCount (fst (projr analysis_first))) = 1
   \<and> unat (alertCounter (fst (projr analysis_first))) = 1
   \<and> getRiskScore (snd (projr analysis_first)) user1 = 42
   \<and> getRiskLevel (snd (projr analysis_first)) user1 = RiskLevel.MEDIUM
   \<and> analyzeTransaction monitor_address deployer 1700000000 8 user2 user1 5 STRUCTURING 75
       ''Structuring detected'' (fst (projr user1_sanctioned))
       (monitor_deployed, snd (projr user1_sanctioned))
     = Inr (fst (projr analysis_sanctioned), snd (projr analysis_sanctioned))
   \<and> isSanctioned (fst (projr user1_sanctioned)) user1
   \<and> getRiskScore (snd (projr analysis_sanctioned)) user2 = 100
   \<and> getRiskLevel (snd (projr analysis_sanctioned)) user2 = RiskLevel.CRITICAL"
proof -
  have f1: "85 \<ge> highRiskThreshold monitor_deployed \<or> MIXING \<noteq> NORMAL"
    and f1': "highRiskThreshold monitor_deployed \<le> 85"
    and f2: "75 \<ge> highRiskThreshold monitor_deployed \<or> STRUCTURING \<noteq> NORMAL"
    by (simp_all add: monitor_deployed_def TransactionMonitor_constructor_def)
  have z: "flaggedTransactionCount monitor_deployed = 0" "alertCounter monitor_deployed = 0"
    "getRiskScore registry_deployed user1 = 0"
    "\<not> isSanctioned (ComplianceOracle_constructor deployer) user2"
    by (simp_all add: monitor_deployed_def TransactionMonitor_constructor_def registry_examples
          getRiskScore_def isSanctioned_def ComplianceOracle_constructor_def)
  have a: "(85 :: uint256) div 2 = 42" "scoreToLevel 42 = RiskLevel.MEDIUM"
    by (simp_all add: scoreToLevel_def)
  from analyzeTransaction_flagged_effects [OF analysis_first_Inr f1]
  have first: "unat (flaggedTransactionCount (fst (projr analysis_first))) = 1
    \<and> unat (alertCounter (fst (projr analysis_first))) = 1
    \<and> getRiskScore (snd (projr analysis_first)) user1 = 42
    \<and> getRiskLevel (snd (projr analysis_first)) user1 = RiskLevel.MEDIUM"
    unfolding Let_def by (simp add: z a)
  from analyzeTransaction_flagged_effects [OF analysis_sanctioned_Inr f2] user1_sanctioned_state(1)
  have second: "getRiskScore (snd (projr analysis_sanctioned)) user2 = 100
    \<and> getRiskLevel (snd (projr analysis_sanctioned)) user2 = RiskLevel.CRITICAL"
    unfolding Let_def by simp
  from analysis_first_Inr f1' first analysis_sanctioned_Inr user1_sanctioned_state(1) second
  show ?thesis by blast
qed

lemma analyzeTransaction_analyses:
  assumes ok: "analyzeTransaction this msg_sender t txHash from to amount pattern anomalyScore
                 notes complianceOracle (s, rr) = Inr (s', rr')"
  shows "transactionAnalyses s' =
           (transactionAnalyses s)(txHash :=
              \<lparr>ta_txHash = txHash, ta_from = from, ta_to = to, ta_amount = amount,
               ta_pattern = pattern, ta_severity = calculateSeverity s anomalyScore pattern,
               ta_anomalyScore = anomalyScore, ta_timestamp = t,
               ta_flagged = (anomalyScore \<ge> highRiskThreshold s \<or> pattern \<noteq> NORMAL),
               ta_notes = notes\<rparr>)"
proof (cases "anomalyScore \<ge> highRiskThreshold s \<or> pattern \<noteq> NORMAL")
  case True
  from ok True obtain n s3 where
    s3: "s3 = s\<lparr>transactionAnalyses := (transactionAnalyses s)(txHash :=
                \<lparr>ta_txHash = txHash, ta_from = from, ta_to = to, ta_amount = amount,
                 ta_pattern = pattern, ta_severity = calculateSeverity s anomalyScore pattern,
                 ta_anomalyScore = anomalyScore, ta_timestamp = t, ta_flagged = True,
                 ta_notes = notes\<rparr>),
              addressTransactions :=
                ((addressTransactions s)(from := addressTransactions s from @ [txHash]))
                  (to := ((addressTransactions s)(from := addressTransactions s from @ [txHash])) to
                           @ [txHash])\<rparr>"
    and al: "createAlert t from pattern (calculateSeverity s anomalyScore pattern) notes
           (s3\<lparr>flaggedTransactionCount := n\<rparr>) = Inr s'"
    by (rule analyzeTransaction_flagged_Inr)
  from createAlert_Inr(4) [OF al] True show ?thesis
    by (simp add: s3)
next
  case False
  with ok show ?thesis
    by (auto simp: analyzeTransaction_def Let_def split: if_splits)
qed

text \<open>
  Claim C6, as stated, fails: \<^verbatim>\<open>analyzeTransaction\<close> assigns
  \<^verbatim>\<open>transactionAnalyses[txHash]\<close> without looking at what is stored. A second call
  under the same hash 7 replaces the flagged analysis of a transfer of \<open>10 ^ 19\<close> from
  \<open>user1\<close> by an unflagged one of a transfer of 1 from \<open>user2\<close>.
\<close>

theorem analyzeTransaction_overwrites:
  "\<not> isl analysis_first
   \<and> ta_from (transactionAnalyses (fst (projr analysis_first)) 7) = user1
   \<and> ta_amount (transactionAnalyses (fst (projr analysis_first)) 7) = 10 ^ 19
   \<and> ta_flagged (transactionAnalyses (fst (projr analysis_first)) 7)
   \<and> \<not> isl analysis_second
   \<and> ta_from (transactionAnalyses (fst (projr analysis_second)) 7) = user2
   \<and> ta_amount (transactionAnalyses (fst (projr analysis_second)) 7) = 1
   \<and> \<not> ta_flagged (transactionAnalyses (fst (projr analysis_second)) 7)"
proof -
  have first: "\<not> isl analysis_first"
    by (simp add: analysis_first_def monitor_examples registry_examples)
  have second: "analysis_second =
     Inr (fst (projr analysis_first)
            \<lparr>transactionAnalyses := (transactionAnalyses (fst (projr analysis_first)))(7 :=
               \<lparr>ta_txHash = 7, ta_from = user2, ta_to = user1, ta_amount = 1, ta_pattern = NORMAL,
                ta_severity = AlertSeverity.INFO, ta_anomalyScore = 0, ta_timestamp = 1700000100,
                ta_flagged = False, ta_notes = ''Reviewed''\<rparr>),
             addressTransactions :=
               ((addressTransactions (fst (projr analysis_first)))
                  (user2 := addressTransactions (fst (projr analysis_first)) user2 @ [7]))
                  (user1 := ((addressTransactions (fst (projr analysis_first)))
                     (user2 := addressTransactions (fst (projr analysis_first)) user2 @ [7])) user1
                            @ [7])\<rparr>,
          snd (projr analysis_first))"
    by (simp add: analysis_second_def analyzeTransaction_def calculateSeverity_def Let_def
          analysis_first_stored monitor_deployed_def TransactionMonitor_constructor_def
          registry_examples split_beta)
  show ?thesis
    by (simp add: first analysis_first_stored second)
qed

text \<open>
  Claim C6, amended. A successful \<^verbatim>\<open>analyzeTransaction\<close> stores under its transfer
  id the analysis built from its own arguments, whatever was stored there before, and
  leaves the analyses under every other id as they were. The monitor's other mutating
  calls, \<^verbatim>\<open>resolveAlert\<close> and \<^verbatim>\<open>updateThresholds\<close>, change no stored analysis.
\<close>

theorem analyzeTransaction_writes_analysis:
  "(analyzeTransaction this msg_sender t txHash from to amount pattern anomalyScore notes
       complianceOracle (s, rr) = Inr (s1, rr1) \<longrightarrow>
      transactionAnalyses s1 txHash =
        \<lparr>ta_txHash = txHash, ta_from = from, ta_to = to, ta_amount = amount,
         ta_pattern = pattern, ta_severity = calculateSeverity s anomalyScore pattern,
         ta_anomalyScore = anomalyScore, ta_timestamp = t,
         ta_flagged = (anomalyScore \<ge> highRiskThreshold s \<or> pattern \<noteq> NORMAL),
         ta_notes = notes\<rparr>
      \<and> (\<forall>other. other \<noteq> txHash \<longrightarrow> transactionAnalyses s1 other = transactionAnalyses s other))
   \<and> (resolveAlert msg_sender alertId s = Inr s2 \<longrightarrow>
        transactionAnalyses s2 = transactionAnalyses s)
   \<and> (updateThresholds msg_sender newHighRisk newCritical s = Inr s3 \<longrightarrow>
        transactionAnalyses s3 = transactionAnalyses s)"
proof (intro conjI impI allI)
  assume ok: "analyzeTransaction this msg_sender t txHash from to amount pattern anomalyScore
                notes complianceOracle (s, rr) = Inr (s1, rr1)"
  note w = analyzeTransaction_analyses [OF ok]
  show "transactionAnalyses s1 txHash =
        \<lparr>ta_txHash = txHash, ta_from = from, ta_to = to, ta_amount = amount,
         ta_pattern = pattern, ta_severity = calculateSeverity s anomalyScore pattern,
         ta_anomalyScore = anomalyScore, ta_timestamp = t,
         ta_flagged = (anomalyScore \<ge> highRiskThreshold s \<or> pattern \<noteq> NORMAL),
         ta_notes = notes\<rparr>"
    by (simp add: w)
  fix other
  assume "other \<noteq> txHash"
  then show "transactionAnalyses s1 other = transactionAnalyses s other"
    by (simp add: w)
next
  assume "resolveAlert msg_sender alertId s = Inr s2"
  then show "transactionAnalyses s2 = transactionAnalyses s"
    by (auto simp: resolveAlert_def Let_def split: if_splits)
next
  assume "updateThresholds msg_sender newHighRisk newCritical s = Inr s3"
  then show "transactionAnalyses s3 = transactionAnalyses s"
    by (auto simp: updateThresholds_def split: if_splits)
qed

lemma analysis_second_Inr:
  "analyzeTransaction monitor_address deployer 1700000100 7 user2 user1 1 NORMAL 0 ''Reviewed''
       (ComplianceOracle_constructor deployer)
       (fst (projr analysis_first), snd (projr analysis_first))
     = Inr (fst (projr analysis_second), snd (projr analysis_second))"
  by (simp add: analysis_second_def analyzeTransaction_def calculateSeverity_def Let_def
        analysis_first_stored monitor_deployed_def TransactionMonitor_constructor_def
        registry_examples split_beta)

lemma alert_resolved_Inr:
  "resolveAlert deployer 1 (fst (projr analysis_first)) = Inr (projr alert_resolved)"
  by (simp add: alert_resolved_def resolveAlert_def Let_def analysis_first_stored
        monitor_deployed_def TransactionMonitor_constructor_def registry_examples)

lemma thresholds_updated_Inr:
  "updateThresholds deployer 60 80 (fst (projr analysis_first)) = Inr (projr thresholds_updated)"
  by (simp add: thresholds_updated_def updateThresholds_def analysis_first_stored
        monitor_deployed_def TransactionMonitor_constructor_def registry_examples)

text \<open>
  The theorem at the state left by the first analysis: the second analysis under the same
  id, a resolved alert, and new thresholds.
\<close>

theorem analyzeTransaction_writes_analysis_witness:
  "analyzeTransaction monitor_address deployer 1700000100 7 user2 user1 1 NORMAL 0 ''Reviewed''
       (ComplianceOracle_constructor deployer)
       (fst (projr analysis_first), snd (projr analysis_first))
     = Inr (fst (projr analysis_second), snd (projr analysis_second))
   \<and> ta_amount (transactionAnalyses (fst (projr analysis_first)) 7) = 10 ^ 19
   \<and> ta_amount (transactionAnalyses (fst (projr analysis_second)) 7) = 1
   \<and> (8 :: bytes32) \<noteq> 7
   \<and> transactionAnalyses (fst (projr analysis_second)) 8
       = transactionAnalyses (fst (projr analysis_first)) 8
   \<and> resolveAlert deployer 1 (fst (projr analysis_first)) = Inr (projr alert_resolved)
   \<and> transactionAnalyses (projr alert_resolved) = transactionAnalyses (fst (projr analysis_first))
   \<and> updateThresholds deployer 60 80 (fst (projr analysis_first)) = Inr (projr thresholds_updated)
   \<and> transactionAnalyses (projr thresholds_updated)
       = transactionAnalyses (fst (projr analysis_first))"
proof -
  note c = analyzeTransaction_writes_analysis [of monitor_address deployer 1700000100 7 user2 user1 1 NORMAL 0 "''Reviewed''"
                 "ComplianceOracle_constructor deployer" "fst (projr analysis_first)"
                 "snd (projr analysis_first)" "fst (projr analysis_second)"
                 "snd (projr analysis_second)" 1 "projr alert_resolved" 60 80
                 "projr thresholds_updated"]
  have d: "(8 :: bytes32) \<noteq> 7"
    by simp
  from c analysis_second_Inr d
  have w: "ta_amount (transactionAnalyses (fst (projr analysis_second)) 7) = 1"
    and o: "transactionAnalyses (fst (projr analysis_second)) 8
              = transactionAnalyses (fst (projr analysis_first)) 8"
    by simp_all
  from c alert_resolved_Inr
  have r: "transactionAnalyses (projr alert_resolved)
             = transactionAnalyses (fst (projr analysis_first))"
    by blast
  from c thresholds_updated_Inr
  have u: "transactionAnalyses (projr thresholds_updated)
             = transactionAnalyses (fst (projr analysis_first))"
    by blast
  from analysis_second_Inr analysis_first_stored(1) w d o alert_resolved_Inr r
       thresholds_updated_Inr u
  show ?thesis by simp
qed
section \<open>Properties of the report store\<close>

lemma submitReport_Inr:
  assumes "submitReport msg_sender tokenId s = Inr s'"
  shows "s' = s\<lparr>reports := (reports s)(tokenId := (reports s tokenId)\<lparr>rp_status := SUBMITTED\<rparr>)\<rparr>"
    and "owners s tokenId \<noteq> 0"
    and "rp_status (reports s tokenId) = DRAFT"
    and "\<not> rp_isSealed (reports s tokenId)"
  using assms
  by (auto simp: submitReport_def ownerOf_def Let_def split: if_splits)

lemma reviewReport_Inr:
  assumes "reviewReport msg_sender t tokenId approved s = Inr s'"
  shows "s' = s\<lparr>reports := (reports s)(tokenId :=
                  (reports s tokenId)\<lparr>rp_status := (if approved then APPROVED else REJECTED),
                                        rp_reviewer := msg_sender,
                                        rp_reviewTimestamp := t\<rparr>)\<rparr>"
    and "rp_status (reports s tokenId) = SUBMITTED \<or> rp_status (reports s tokenId) = UNDER_REVIEW"
    and "\<not> rp_isSealed (reports s tokenId)"
  using assms
  by (auto simp: reviewReport_def Let_def split: if_splits)

lemma sealReport_Inr:
  assumes "sealReport msg_sender tokenId s = Inr s'"
  shows "s' = s\<lparr>reports := (reports s)(tokenId := (reports s tokenId)\<lparr>rp_isSealed := True\<rparr>)\<rparr>"
    and "rp_status (reports s tokenId) = APPROVED"
    and "\<not> rp_isSealed (reports s tokenId)"
    and "nft_roles s AUDITOR_ROLE msg_sender"
  using assms
  by (auto simp: sealReport_def Let_def split: if_splits)

lemma updateReportData_Inr:
  assumes "updateReportData msg_sender tokenId newIpfsHash newDataHash s = Inr s'"
  shows "s' = s\<lparr>reports := (reports s)(tokenId :=
                  (reports s tokenId)\<lparr>rp_ipfsHash := newIpfsHash, rp_dataHash := newDataHash\<rparr>)\<rparr>"
    and "owners s tokenId \<noteq> 0"
    and "\<not> rp_isSealed (reports s tokenId)"
  using assms
  by (auto simp: updateReportData_def ownerOf_def Let_def split: if_splits)

text \<open>
  Each call on its own respects the seal. \<^verbatim>\<open>sealReport\<close> succeeds only on a report that
  is APPROVED and not yet sealed, and then sets nothing but the seal; on any other status
  an auditor's call fails with the approval error.
\<close>

lemma sealReport_only_from_approved:
  assumes ok: "sealReport msg_sender tokenId s = Inr s'"
  shows "rp_status (reports s tokenId) = APPROVED \<and> \<not> rp_isSealed (reports s tokenId)
     \<and> reports s' tokenId = (reports s tokenId)\<lparr>rp_isSealed := True\<rparr>"
proof -
  note r = sealReport_Inr [OF ok]
  have "reports s' tokenId = (reports s tokenId)\<lparr>rp_isSealed := True\<rparr>"
    by (simp add: r(1))
  with r(2) r(3) show ?thesis
    by simp
qed

lemma sealReport_not_approved:
  "nft_roles s AUDITOR_ROLE msg_sender \<Longrightarrow> rp_status (reports s tokenId) \<noteq> APPROVED \<Longrightarrow>
     sealReport msg_sender tokenId s = Inl (Revert ''Report must be approved'')"
  by (simp add: sealReport_def)

text \<open>On a sealed report each of the four calls that take a report id fails.\<close>

lemma sealed_report_rejects_calls:
  assumes sealed: "rp_isSealed (reports s tokenId)"
  shows "isl (submitReport msg_sender tokenId s)"
    and "isl (reviewReport msg_sender t tokenId approved s)"
    and "isl (updateReportData msg_sender tokenId newIpfsHash newDataHash s)"
    and "isl (sealReport msg_sender tokenId s)"
proof -
  show "isl (submitReport msg_sender tokenId s)"
    using sealed submitReport_Inr(4) [of msg_sender tokenId s]
    by (cases "submitReport msg_sender tokenId s") auto
  show "isl (reviewReport msg_sender t tokenId approved s)"
    using sealed reviewReport_Inr(3) [of msg_sender t tokenId approved s]
    by (cases "reviewReport msg_sender t tokenId approved s") auto
  show "isl (updateReportData msg_sender tokenId newIpfsHash newDataHash s)"
    using sealed updateReportData_Inr(3) [of msg_sender tokenId newIpfsHash newDataHash s]
    by (cases "updateReportData msg_sender tokenId newIpfsHash newDataHash s") auto
  show "isl (sealReport msg_sender tokenId s)"
    using sealed sealReport_Inr(3) [of msg_sender tokenId s]
    by (cases "sealReport msg_sender tokenId s") auto
qed

text \<open>
  When the officer is an account without code, \<^verbatim>\<open>_safeMint\<close> makes no call, and
  \<^verbatim>\<open>createReport\<close> writes under an id that was never minted. From deployment, through
  transactions whose senders have no code, a sealed report then stays field for field as
  it is.
\<close>

lemma createReport_NoCode_Inr:
  assumes "createReport msg_sender t reportType subject ipfsHash dataHash NoCode s = Inr (tokenId, s')"
  shows "unat tokenId = unat (tokenIdCounter s) + 1"
    and "tokenIdCounter s' = tokenId"
    and "reports s' = (reports s)(tokenId :=
           \<lparr>rp_tokenId = tokenId, rp_reportType = reportType, rp_status = DRAFT,
            rp_subject = subject, rp_issuer = msg_sender, rp_timestamp = t,
            rp_reviewTimestamp = 0, rp_reviewer = 0, rp_ipfsHash = ipfsHash,
            rp_dataHash = dataHash, rp_isSealed = False\<rparr>)"
    and "owners s' = (owners s)(tokenId := msg_sender)"
    and "nft_roles s' = nft_roles s"
proof -
  from assms obtain s1 where n: "checked_add (tokenIdCounter s) 1 = Inr tokenId"
    and m: "mint msg_sender tokenId (s\<lparr>tokenIdCounter := tokenId\<rparr>) = Inr s1"
    and s': "s' = s1\<lparr>reports := (reports s1)(tokenId :=
                           \<lparr>rp_tokenId = tokenId, rp_reportType = reportType, rp_status = DRAFT,
                            rp_subject = subject, rp_issuer = msg_sender,
                            rp_timestamp = t, rp_reviewTimestamp = 0,
                            rp_reviewer = 0, rp_ipfsHash = ipfsHash, rp_dataHash = dataHash,
                            rp_isSealed = False\<rparr>),
                         subjectReports :=
                           (subjectReports s1)(subject := subjectReports s1 subject @ [tokenId]),
                         issuerReports :=
                           (issuerReports s1)(msg_sender := issuerReports s1 msg_sender @ [tokenId])\<rparr>"
    by (auto split: if_splits sum.splits)
  from m have s1: "s1 = s\<lparr>tokenIdCounter := tokenId, owners := (owners s)(tokenId := msg_sender)\<rparr>"
    by (auto simp: mint_def split: if_splits)
  show "unat tokenId = unat (tokenIdCounter s) + 1"
    by (rule checked_add_one_Inr(2) [OF n])
  show "tokenIdCounter s' = tokenId"
    and "reports s' = (reports s)(tokenId :=
           \<lparr>rp_tokenId = tokenId, rp_reportType = reportType, rp_status = DRAFT,
            rp_subject = subject, rp_issuer = msg_sender, rp_timestamp = t,
            rp_reviewTimestamp = 0, rp_reviewer = 0, rp_ipfsHash = ipfsHash,
            rp_dataHash = dataHash, rp_isSealed = False\<rparr>)"
    and "owners s' = (owners s)(tokenId := msg_sender)"
    and "nft_roles s' = nft_roles s"
    by (simp_all add: s' s1)
qed

lemma nft_fresh_above_deployed: "nft_fresh_above (RegulatoryNFT_deployed roles)"
  by (simp add: nft_fresh_above_def RegulatoryNFT_deployed_def)

lemma nft_call_result_fresh_above:
  assumes wf: "nft_fresh_above s"
    and eoa: "sender_without_code call"
    and ok: "nft_call_result msg_sender t call s = Inr s'"
  shows "nft_fresh_above s'"
proof (cases call)
  case (CreateReport reportType subject ipfsHash dataHash code)
  with eoa have code: "code = NoCode"
    by simp
  with CreateReport ok obtain tokenId where
    c: "createReport msg_sender t reportType subject ipfsHash dataHash NoCode s = Inr (tokenId, s')"
    by (auto simp del: createReport.simps split: sum.splits)
  note r = createReport_NoCode_Inr [OF c]
  show ?thesis
    unfolding nft_fresh_above_def
  proof (intro allI impI)
    fix other
    assume "tokenIdCounter s' < other"
    then have above: "unat tokenId < unat other"
      by (simp add: r(2) word_less_nat_alt)
    with r(1) have "tokenIdCounter s < other" and "other \<noteq> tokenId"
      by (auto simp: word_less_nat_alt)
    with wf show "reports s' other = ComplianceReport_zero \<and> owners s' other = 0"
      by (simp add: nft_fresh_above_def r(3) r(4))
  qed
next
  case (SubmitReport tokenId)
  with ok have c: "submitReport msg_sender tokenId s = Inr s'"
    by simp
  note r = submitReport_Inr [OF c]
  from wf r(2) have "\<not> tokenIdCounter s < tokenId"
    by (auto simp: nft_fresh_above_def)
  with wf show ?thesis
    by (auto simp: nft_fresh_above_def r(1))
next
  case (ReviewReport tokenId approved)
  with ok have c: "reviewReport msg_sender t tokenId approved s = Inr s'"
    by simp
  note r = reviewReport_Inr [OF c]
  from wf r(2) have "\<not> tokenIdCounter s < tokenId"
    by (auto simp: nft_fresh_above_def ComplianceReport_zero_def)
  with wf show ?thesis
    by (auto simp: nft_fresh_above_def r(1))
next
  case (SealReport tokenId)
  with ok have c: "sealReport msg_sender tokenId s = Inr s'"
    by simp
  note r = sealReport_Inr [OF c]
  from wf r(2) have "\<not> tokenIdCounter s < tokenId"
    by (auto simp: nft_fresh_above_def ComplianceReport_zero_def)
  with wf show ?thesis
    by (auto simp: nft_fresh_above_def r(1))
next
  case (UpdateReportData tokenId newIpfsHash newDataHash)
  with ok have c: "updateReportData msg_sender tokenId newIpfsHash newDataHash s = Inr s'"
    by simp
  note r = updateReportData_Inr [OF c]
  from wf r(2) have "\<not> tokenIdCounter s < tokenId"
    by (auto simp: nft_fresh_above_def)
  with wf show ?thesis
    by (auto simp: nft_fresh_above_def r(1))
qed

lemma nft_call_result_keeps_sealed:
  assumes wf: "nft_fresh_above s"
    and eoa: "sender_without_code call"
    and sealed: "rp_isSealed (reports s tokenId)"
    and ok: "nft_call_result msg_sender t call s = Inr s'"
  shows "reports s' tokenId = reports s tokenId"
proof (cases call)
  case (CreateReport reportType subject ipfsHash dataHash code)
  with eoa have code: "code = NoCode"
    by simp
  with CreateReport ok obtain new where
    c: "createReport msg_sender t reportType subject ipfsHash dataHash NoCode s = Inr (new, s')"
    by (auto simp del: createReport.simps split: sum.splits)
  note r = createReport_NoCode_Inr [OF c]
  from r(1) have "tokenIdCounter s < new"
    by (simp add: word_less_nat_alt)
  with wf have "\<not> rp_isSealed (reports s new)"
    by (simp add: nft_fresh_above_def ComplianceReport_zero_def)
  with sealed have "tokenId \<noteq> new"
    by auto
  then show ?thesis
    by (simp add: r(3))
next
  case (SubmitReport other)
  with ok have c: "submitReport msg_sender other s = Inr s'"
    by simp
  from submitReport_Inr(4) [OF c] sealed have "tokenId \<noteq> other"
    by auto
  then show ?thesis
    by (simp add: submitReport_Inr(1) [OF c])
next
  case (ReviewReport other approved)
  with ok have c: "reviewReport msg_sender t other approved s = Inr s'"
    by simp
  from reviewReport_Inr(3) [OF c] sealed have "tokenId \<noteq> other"
    by auto
  then show ?thesis
    by (simp add: reviewReport_Inr(1) [OF c])
next
  case (SealReport other)
  with ok have c: "sealReport msg_sender other s = Inr s'"
    by simp
  from sealReport_Inr(3) [OF c] sealed have "tokenId \<noteq> other"
    by auto
  then show ?thesis
    by (simp add: sealReport_Inr(1) [OF c])
next
  case (UpdateReportData other newIpfsHash newDataHash)
  with ok have c: "updateReportData msg_sender other newIpfsHash newDataHash s = Inr s'"
    by simp
  from updateReportData_Inr(3) [OF c] sealed have "tokenId \<noteq> other"
    by auto
  then show ?thesis
    by (simp add: updateReportData_Inr(1) [OF c])
qed

lemma nft_transact_fresh_above:
  assumes "nft_fresh_above s" and "sender_without_code (snd (snd tx))"
  shows "nft_fresh_above (nft_transact tx s)"
proof (cases tx)
  case (fields msg_sender t call)
  with assms(2) have eoa: "sender_without_code call"
    by simp
  show ?thesis
  proof (cases "nft_call_result msg_sender t call s")
    case (Inl e)
    with fields assms(1) show ?thesis by (simp add: nft_transact_def)
  next
    case (Inr s')
    with fields nft_call_result_fresh_above [OF assms(1) eoa Inr] show ?thesis
      by (simp add: nft_transact_def)
  qed
qed

lemma nft_transact_keeps_sealed:
  assumes "nft_fresh_above s" and "sender_without_code (snd (snd tx))"
    and "rp_isSealed (reports s tokenId)"
  shows "reports (nft_transact tx s) tokenId = reports s tokenId"
proof (cases tx)
  case (fields msg_sender t call)
  with assms(2) have eoa: "sender_without_code call"
    by simp
  show ?thesis
  proof (cases "nft_call_result msg_sender t call s")
    case (Inl e)
    with fields show ?thesis by (simp add: nft_transact_def)
  next
    case (Inr s')
    with fields nft_call_result_keeps_sealed [OF assms(1) eoa assms(3) Inr] show ?thesis
      by (simp add: nft_transact_def)
  qed
qed

lemma nft_history_fresh_above:
  "nft_fresh_above s \<Longrightarrow> \<forall>tx \<in> set txs. sender_without_code (snd (snd tx)) \<Longrightarrow>
     nft_fresh_above (nft_history txs s)"
  by (induction txs arbitrary: s) (simp_all add: nft_transact_fresh_above)

lemma nft_history_keeps_sealed:
  "nft_fresh_above s \<Longrightarrow> \<forall>tx \<in> set txs. sender_without_code (snd (snd tx)) \<Longrightarrow>
     rp_isSealed (reports s tokenId) \<Longrightarrow>
     reports (nft_history txs s) tokenId = reports s tokenId"
proof (induction txs arbitrary: s)
  case Nil
  then show ?case by simp
next
  case (Cons tx txs)
  from Cons.prems(2) have eoa: "sender_without_code (snd (snd tx))"
    and rest: "\<forall>tx \<in> set txs. sender_without_code (snd (snd tx))"
    by simp_all
  from Cons.prems(1) eoa Cons.prems(3)
  have same: "reports (nft_transact tx s) tokenId = reports s tokenId"
    by (rule nft_transact_keeps_sealed)
  from Cons.prems(1) eoa have "nft_fresh_above (nft_transact tx s)"
    by (rule nft_transact_fresh_above)
  moreover from Cons.prems(3) same have "rp_isSealed (reports (nft_transact tx s) tokenId)"
    by simp
  ultimately have "reports (nft_history txs (nft_transact tx s)) tokenId
                     = reports (nft_transact tx s) tokenId"
    using rest by (intro Cons.IH)
  with same show ?case by simp
qed

lemma sealed_report_kept_without_code:
  assumes "s = nft_history earlier (RegulatoryNFT_deployed roles)"
    and "\<forall>tx \<in> set earlier. sender_without_code (snd (snd tx))"
    and "\<forall>tx \<in> set later. sender_without_code (snd (snd tx))"
    and "rp_isSealed (reports s tokenId)"
  shows "reports (nft_history later s) tokenId = reports s tokenId"
proof -
  from assms(1,2) have "nft_fresh_above s"
    by (simp add: nft_history_fresh_above nft_fresh_above_deployed)
  then show ?thesis
    using assms(3,4) by (rule nft_history_keeps_sealed)
qed

lemmas nft_examples =
  RegulatoryNFT_deployed_def ComplianceReport_zero_def
  officer_contract_def store_with_officer_contract_def sealing_receiver_def
  report_sealed_in_callback_def report_recreated_def
  mint_def submitReport_def ownerOf_def reviewReport_def sealReport_def updateReportData_def
  checked_add_def Let_def

lemma report_sealed_in_callback_state:
  "report_sealed_in_callback =
     Inr (store_with_officer_contract
            \<lparr>tokenIdCounter := 1,
             owners := (owners store_with_officer_contract)(1 := officer_contract),
             reports := (reports store_with_officer_contract)(1 :=
               \<lparr>rp_tokenId = 0, rp_reportType = SUSPICIOUS_ACTIVITY, rp_status = APPROVED,
                rp_subject = 0, rp_issuer = 0, rp_timestamp = 0,
                rp_reviewTimestamp = 1700000000, rp_reviewer = officer_contract,
                rp_ipfsHash = [], rp_dataHash = 0, rp_isSealed = True\<rparr>)\<rparr>)"
  by (simp add: nft_examples)

lemma report_recreated_state:
  "report_recreated =
     Inr (1, (projr report_sealed_in_callback)
            \<lparr>reports := (reports (projr report_sealed_in_callback))(1 :=
               \<lparr>rp_tokenId = 1, rp_reportType = SUSPICIOUS_ACTIVITY, rp_status = DRAFT,
                rp_subject = user1, rp_issuer = officer_contract, rp_timestamp = 1700000000,
                rp_reviewTimestamp = 0, rp_reviewer = 0, rp_ipfsHash = ''QmTest123'',
                rp_dataHash = 99, rp_isSealed = False\<rparr>),
             subjectReports := (subjectReports (projr report_sealed_in_callback))
               (user1 := subjectReports (projr report_sealed_in_callback) user1 @ [1]),
             issuerReports := (issuerReports (projr report_sealed_in_callback))
               (officer_contract :=
                  issuerReports (projr report_sealed_in_callback) officer_contract @ [1])\<rparr>)"
  by (simp add: nft_examples user1_def)

text \<open>
  Claim C5. Sealing is reachable only from APPROVED and unsealed, and each of
  \<^verbatim>\<open>submitReport\<close>, \<^verbatim>\<open>reviewReport\<close>, \<^verbatim>\<open>updateReportData\<close> and \<^verbatim>\<open>sealReport\<close>
  fails on a sealed report, as the lemmas above say. But a sealed report does not always
  stay as it is. The officer at address 32 is a contract that also holds the auditor role;
  it calls \<^verbatim>\<open>createReport\<close>, and while \<^verbatim>\<open>_safeMint\<close> asks it to accept token 1 it
  submits, approves and seals report 1. When \<^verbatim>\<open>_safeMint\<close> returns, report 1 is
  APPROVED and sealed, and an update of it fails. \<^verbatim>\<open>createReport\<close> does not fail: it
  returns id 1, and its storage is that of the sealed report with
  \<^verbatim>\<open>reports[1]\<close> replaced, together with the two index entries: every field but the
  report type has changed, the status is DRAFT again and the seal is gone.
\<close>

theorem createReport_overwrites_sealed_report:
  "\<not> isl report_sealed_in_callback
   \<and> reports (projr report_sealed_in_callback) 1 =
       \<lparr>rp_tokenId = 0, rp_reportType = SUSPICIOUS_ACTIVITY, rp_status = APPROVED,
        rp_subject = 0, rp_issuer = 0, rp_timestamp = 0,
        rp_reviewTimestamp = 1700000000, rp_reviewer = officer_contract,
        rp_ipfsHash = [], rp_dataHash = 0, rp_isSealed = True\<rparr>
   \<and> updateReportData officer_contract 1 ''QmOther'' 5 (projr report_sealed_in_callback)
       = Inl (Revert ''Report is sealed'')
   \<and> \<not> isl report_recreated
   \<and> fst (projr report_recreated) = 1
   \<and> snd (projr report_recreated) =
       (projr report_sealed_in_callback)
         \<lparr>reports := (reports (projr report_sealed_in_callback))(1 :=
            \<lparr>rp_tokenId = 1, rp_reportType = SUSPICIOUS_ACTIVITY, rp_status = DRAFT,
             rp_subject = user1, rp_issuer = officer_contract, rp_timestamp = 1700000000,
             rp_reviewTimestamp = 0, rp_reviewer = 0, rp_ipfsHash = ''QmTest123'',
             rp_dataHash = 99, rp_isSealed = False\<rparr>),
          subjectReports := (subjectReports (projr report_sealed_in_callback))
            (user1 := subjectReports (projr report_sealed_in_callback) user1 @ [1]),
          issuerReports := (issuerReports (projr report_sealed_in_callback))
            (officer_contract :=
               issuerReports (projr report_sealed_in_callback) officer_contract @ [1])\<rparr>
   \<and> reports (snd (projr report_recreated)) 1 =
       \<lparr>rp_tokenId = 1, rp_reportType = SUSPICIOUS_ACTIVITY, rp_status = DRAFT,
        rp_subject = user1, rp_issuer = officer_contract, rp_timestamp = 1700000000,
        rp_reviewTimestamp = 0, rp_reviewer = 0, rp_ipfsHash = ''QmTest123'',
        rp_dataHash = 99, rp_isSealed = False\<rparr>"
proof (intro conjI)
  show "\<not> isl report_sealed_in_callback"
    by (simp add: report_sealed_in_callback_state)
  show "reports (projr report_sealed_in_callback) 1 =
       \<lparr>rp_tokenId = 0, rp_reportType = SUSPICIOUS_ACTIVITY, rp_status = APPROVED,
        rp_subject = 0, rp_issuer = 0, rp_timestamp = 0,
        rp_reviewTimestamp = 1700000000, rp_reviewer = officer_contract,
        rp_ipfsHash = [], rp_dataHash = 0, rp_isSealed = True\<rparr>"
    by (simp add: report_sealed_in_callback_state)
  show "updateReportData officer_contract 1 ''QmOther'' 5 (projr report_sealed_in_callback)
       = Inl (Revert ''Report is sealed'')"
    by (simp add: report_sealed_in_callback_state updateReportData_def ownerOf_def
          officer_contract_def)
  show "\<not> isl report_recreated"
    by (simp add: report_recreated_state)
  show "fst (projr report_recreated) = 1"
    by (simp add: report_recreated_state)
  show "snd (projr report_recreated) =
       (projr report_sealed_in_callback)
         \<lparr>reports := (reports (projr report_sealed_in_callback))(1 :=
            \<lparr>rp_tokenId = 1, rp_reportType = SUSPICIOUS_ACTIVITY, rp_status = DRAFT,
             rp_subject = user1, rp_issuer = officer_contract, rp_timestamp = 1700000000,
             rp_reviewTimestamp = 0, rp_reviewer = 0, rp_ipfsHash = ''QmTest123'',
             rp_dataHash = 99, rp_isSealed = False\<rparr>),
          subjectReports := (subjectReports (projr report_sealed_in_callback))
            (user1 := subjectReports (projr report_sealed_in_callback) user1 @ [1]),
          issuerReports := (issuerReports (projr report_sealed_in_callback))
            (officer_contract :=
               issuerReports (projr report_sealed_in_callback) officer_contract @ [1])\<rparr>"
    by (simp add: report_recreated_state)
  show "reports (snd (projr report_recreated)) 1 =
       \<lparr>rp_tokenId = 1, rp_reportType = SUSPICIOUS_ACTIVITY, rp_status = DRAFT,
        rp_subject = user1, rp_issuer = officer_contract, rp_timestamp = 1700000000,
        rp_reviewTimestamp = 0, rp_reviewer = 0, rp_ipfsHash = ''QmTest123'',
        rp_dataHash = 99, rp_isSealed = False\<rparr>"
    by (simp add: report_recreated_state)
qed

end
